theory Spec2Isabelle
  imports Main "HOL-Library.Word" "HOL-Library.Multiset"
begin

section \<open>Go values, errors and strings\<close>

text \<open>
  A Go \<^verbatim>\<open>error\<close> is either an error handed over by a library (the SQL driver, the
  operating system) with its text, or a wrapper built by \<^verbatim>\<open>fmt.Errorf("ctx: %w", err)\<close>.
  A run-time panic is a third kind of outcome and is kept apart from both.
\<close>

type_synonym byte = "8 word"

datatype error =
    E string                    \<comment> \<open>a library error whose \<^verbatim>\<open>Error()\<close> text is the string\<close>
  | Wrap string error           \<comment> \<open>\<^verbatim>\<open>fmt.Errorf("<ctx>: %w", err)\<close>\<close>
  | WrapQ string string error   \<comment> \<open>\<^verbatim>\<open>fmt.Errorf("<ctx>: %q: %w", q, err)\<close>\<close>
  | ErrNotExist string          \<comment> \<open>an error of \<^verbatim>\<open>os\<close> for which \<^verbatim>\<open>os.IsNotExist\<close> holds, with the path\<close>
  | Panic string                \<comment> \<open>a run-time panic\<close>

text \<open>
  A value scanned from the driver into an \<^verbatim>\<open>interface{}\<close>. \<open>VOther s\<close> stands for
  any value of another dynamic type (a float, a time, a decimal); it carries the text
  that \<^verbatim>\<open>fmt.Sprintf("%v", v)\<close> prints for it.
\<close>

datatype go_value =
    VNil
  | VBytes "byte list"
  | VInt int
  | VString string
  | VBool bool
  | VOther string

subsection \<open>Decimal and hexadecimal printing\<close>

definition digit_char :: "nat \<Rightarrow> char" where
  "digit_char d = ''0123456789abcdef'' ! d"

function show_nat :: "nat \<Rightarrow> string" where
  "show_nat n = (if n < 10 then [digit_char n] else show_nat (n div 10) @ [digit_char (n mod 10)])"
  by pat_completeness auto
termination
  by (relation "measure id") auto

definition show_int :: "int \<Rightarrow> string" where
  "show_int i = (if i < 0 then CHR ''-'' # show_nat (nat (- i)) else show_nat (nat i))"

text \<open>\<^verbatim>\<open>hex.EncodeToString\<close>: two lower-case digits for each byte.\<close>

definition hex_byte :: "byte \<Rightarrow> string" where
  "hex_byte b = [digit_char (unat b div 16), digit_char (unat b mod 16)]"

definition hex_encode :: "byte list \<Rightarrow> string" where
  "hex_encode bs = concat (map hex_byte bs)"

fun intersperse :: "'a list \<Rightarrow> 'a list list \<Rightarrow> 'a list" where
  "intersperse sep [] = []"
| "intersperse sep [x] = x"
| "intersperse sep (x # y # ys) = x @ sep @ intersperse sep (y # ys)"

text \<open>
  \<^verbatim>\<open>fmt.Sprintf("%v", v)\<close> for a non-nil value: a byte slice prints as the decimal
  values of its bytes between brackets, a string as itself.
\<close>

fun Sprintf_v :: "go_value \<Rightarrow> string" where
  "Sprintf_v VNil = ''<nil>''"
| "Sprintf_v (VBytes bs) = ''['' @ intersperse '' '' (map (\<lambda>b. show_nat (unat b)) bs) @ '']''"
| "Sprintf_v (VInt i) = show_int i"
| "Sprintf_v (VString s) = s"
| "Sprintf_v (VBool b) = (if b then ''true'' else ''false'')"
| "Sprintf_v (VOther s) = s"

subsection \<open>\<^verbatim>\<open>uuid.UUID(v).String()\<close>\<close>

text \<open>
  \<^verbatim>\<open>uuid.UUID\<close> is \<^verbatim>\<open>[16]byte\<close>. Converting a slice to it panics when the slice is
  shorter than 16 bytes and takes the first 16 bytes otherwise. \<^verbatim>\<open>String()\<close> prints
  the groups of 4, 2, 2, 2 and 6 bytes in hexadecimal, joined by hyphens.
\<close>

definition UUID_String :: "byte list \<Rightarrow> string" where
  "UUID_String u =
     hex_encode (take 4 u) @ ''-'' @ hex_encode (take 2 (drop 4 u)) @ ''-'' @
     hex_encode (take 2 (drop 6 u)) @ ''-'' @ hex_encode (take 2 (drop 8 u)) @ ''-'' @
     hex_encode (take 6 (drop 10 u))"

definition UUID_of_slice :: "byte list \<Rightarrow> error + byte list" where
  "UUID_of_slice v =
     (if length v < 16 then Inl (Panic ''cannot convert slice to array: length below 16'')
      else Inr (take 16 v))"

section \<open>The query response (icebase.go)\<close>

text \<open>
  \<^verbatim>\<open>QueryResponse\<close>. A Go slice is \<open>None\<close> when it is \<^verbatim>\<open>nil\<close> and \<open>Some xs\<close>
  otherwise: \<^verbatim>\<open>encoding/json\<close> tells the two apart. Every cell that
  \<^verbatim>\<open>ExecuteQuery\<close> stores is a string. The elapsed time is kept in nanoseconds.
\<close>

record QueryResponse =
  Meta :: "(string \<times> string) list option"
  Data :: "string list list option"
  Rows :: nat
  Elapsed :: nat

text \<open>
  What \<^verbatim>\<open>dataTx.Query(query)\<close> and the iteration over its rows deliver:
  the error of \<^verbatim>\<open>Query\<close> with its text, or the results of \<^verbatim>\<open>rows.Columns()\<close>,
  of \<^verbatim>\<open>rows.ColumnTypes()\<close> (as the list of the \<^verbatim>\<open>DatabaseTypeName()\<close>s) and of
  the iteration. Each step of the iteration is a row with its values, a row whose
  \<^verbatim>\<open>Scan\<close> fails, or an error of the driver in \<^verbatim>\<open>rows.Next()\<close>, which then
  returns false: the loop ends there, and since the source never reads
  \<^verbatim>\<open>rows.Err()\<close> the error is lost.
\<close>

datatype fetch = Row "go_value list" | ScanFails error | NextFails error

datatype query_result =
    QErr string
  | QRows "error + string list" "error + string list" "fetch list"

text \<open>The body of the inner loop over \<^verbatim>\<open>values\<close> (icebase.go, lines 131 to 147).\<close>

definition cell :: "string \<Rightarrow> go_value \<Rightarrow> error + string" where
  "cell ty v =
     (case v of
        VNil \<Rightarrow> Inr ''NULL''
      | VBytes b \<Rightarrow>
          (if ty = ''UUID''
           then (case UUID_of_slice b of Inl e \<Rightarrow> Inl e | Inr u \<Rightarrow> Inr (UUID_String u))
           else Inr (Sprintf_v v))
      | _ \<Rightarrow> Inr (Sprintf_v v))"

fun row_cells :: "string list \<Rightarrow> go_value list \<Rightarrow> error + string list" where
  "row_cells tys [] = Inr []"
| "row_cells [] (v # vs) = Inl (Panic ''index out of range'')"
| "row_cells (ty # tys) (v # vs) =
     (case cell ty v of
        Inl e \<Rightarrow> Inl e
      | Inr c \<Rightarrow> (case row_cells tys vs of Inl e \<Rightarrow> Inl e | Inr cs \<Rightarrow> Inr (c # cs)))"

text \<open>
  \<^verbatim>\<open>rows.Scan(valuePtrs...)\<close> with one destination for each column: the driver's
  error, or \<^verbatim>\<open>database/sql\<close>'s own error when the row does not have that many values.
\<close>

definition Scan :: "nat \<Rightarrow> fetch \<Rightarrow> error + go_value list" where
  "Scan n r =
     (case r of
        Row vs \<Rightarrow> (if length vs = n then Inr vs
                   else Inl (E ''sql: wrong number of destination arguments in Scan''))
      | ScanFails e \<Rightarrow> Inl e
      | NextFails e \<Rightarrow> Inl e)"

definition append_row :: "string list list option \<Rightarrow> string list \<Rightarrow> string list list option" where
  "append_row d r = (case d of None \<Rightarrow> Some [r] | Some rs \<Rightarrow> Some (rs @ [r]))"

text \<open>
  The loop \<^verbatim>\<open>for rows.Next()\<close>, with the variable \<^verbatim>\<open>data\<close> as accumulator. An
  error of \<^verbatim>\<open>rows.Next()\<close> ends the loop like the end of the rows: the function goes
  on and returns the rows read so far as a success.
\<close>

fun scan_rows ::
  "nat \<Rightarrow> string list \<Rightarrow> fetch list \<Rightarrow> string list list option
   \<Rightarrow> error + string list list option" where
  "scan_rows n tys [] d = Inr d"
| "scan_rows n tys (NextFails e # rs) d = Inr d"
| "scan_rows n tys (r # rs) d =
     (case Scan n r of
        Inl e \<Rightarrow> Inl (Wrap ''failed to scan row'' e)
      | Inr vs \<Rightarrow>
          (case row_cells tys vs of
             Inl e \<Rightarrow> Inl e
           | Inr cs \<Rightarrow> scan_rows n tys rs (append_row d cs)))"

definition len_opt :: "'a list option \<Rightarrow> nat" where
  "len_opt d = (case d of None \<Rightarrow> 0 | Some xs \<Rightarrow> length xs)"

text \<open>
  \<^verbatim>\<open>ExecuteQuery\<close>. The response starts with \<^verbatim>\<open>Data\<close> and \<^verbatim>\<open>Meta\<close> made as
  empty slices; the local \<^verbatim>\<open>data\<close> starts as the nil slice, collects the rows, and is
  assigned to \<^verbatim>\<open>response.Data\<close> at the end. The first argument is the time measured
  between the start and the end of the call.
\<close>

definition ExecuteQuery :: "nat \<Rightarrow> query_result \<Rightarrow> error + QueryResponse" where
  "ExecuteQuery elapsed qr =
     (case qr of
        QErr txt \<Rightarrow>
          (if txt \<noteq> ''empty query'' then Inl (Wrap ''query error'' (E txt))
           else Inr \<lparr>Meta = Some [], Data = None, Rows = len_opt (None :: string list list option),
                     Elapsed = elapsed\<rparr>)
      | QRows cols ctys rws \<Rightarrow>
          (case cols of
             Inl e \<Rightarrow> Inl (Wrap ''failed to get columns'' e)
           | Inr columns \<Rightarrow>
               (case ctys of
                  Inl e \<Rightarrow> Inl (Wrap ''failed to get column types'' e)
                | Inr columnTypes \<Rightarrow>
                    (if length columnTypes < length columns then Inl (Panic ''index out of range'')
                     else
                       (let meta = zip columns columnTypes in
                        case scan_rows (length columns) (map snd meta) rws None of
                          Inl e \<Rightarrow> Inl e
                        | Inr data \<Rightarrow>
                            Inr \<lparr>Meta = Some meta, Data = data, Rows = len_opt data,
                                 Elapsed = elapsed\<rparr>)))))"

subsection \<open>\<^verbatim>\<open>json.Marshal\<close> of a response\<close>

text \<open>
  A JSON document as a tree. \<open>JSeconds n\<close> is the number that \<^verbatim>\<open>encoding/json\<close>
  prints for the \<^verbatim>\<open>float64\<close> seconds of a duration of \<open>n\<close> nanoseconds. A nil slice
  and a nil pointer marshal as \<^verbatim>\<open>null\<close>, an empty slice as \<^verbatim>\<open>[]\<close>.
\<close>

datatype json =
    JNull
  | JInt int
  | JSeconds nat
  | JStr string
  | JArr "json list"
  | JObj "(string \<times> json) list"

definition marshal_meta :: "(string \<times> string) list option \<Rightarrow> json" where
  "marshal_meta m =
     (case m of
        None \<Rightarrow> JNull
      | Some cs \<Rightarrow> JArr (map (\<lambda>(n, t). JObj [(''name'', JStr n), (''type'', JStr t)]) cs))"

definition marshal_data :: "string list list option \<Rightarrow> json" where
  "marshal_data d =
     (case d of None \<Rightarrow> JNull | Some rs \<Rightarrow> JArr (map (\<lambda>r. JArr (map JStr r)) rs))"

definition Marshal :: "QueryResponse option \<Rightarrow> json" where
  "Marshal r =
     (case r of
        None \<Rightarrow> JNull
      | Some resp \<Rightarrow>
          JObj [(''meta'', marshal_meta (Meta resp)),
                (''data'', marshal_data (Data resp)),
                (''rows'', JInt (int (Rows resp))),
                (''statistics'', JObj [(''elapsed'', JSeconds (Elapsed resp))])])"

text \<open>The value of a field of a JSON object, when the document is an object that has it.\<close>

fun field :: "string \<Rightarrow> json \<Rightarrow> json option" where
  "field k (JObj kvs) = map_of kvs k"
| "field k _ = None"

subsection \<open>Notions used to state the properties of the response\<close>

text \<open>
  The canonical text of a UUID: 36 characters, hyphens at the positions 8, 13, 18 and
  23, lower-case hexadecimal digits elsewhere.
\<close>

definition canonical_uuid :: "string \<Rightarrow> bool" where
  "canonical_uuid s \<longleftrightarrow>
     length s = 36 \<and>
     (\<forall>i < 36. if i \<in> {8, 13, 18, 23} then s ! i = CHR ''-'' else s ! i \<in> set ''0123456789abcdef'')"

text \<open>The rows held by the variable \<^verbatim>\<open>data\<close>: none when it is the nil slice.\<close>

definition rows_so_far :: "string list list option \<Rightarrow> string list list" where
  "rows_so_far d = (case d of None \<Rightarrow> [] | Some rs \<Rightarrow> rs)"

section \<open>Strings (package \<^verbatim>\<open>strings\<close>)\<close>

text \<open>
  Strings are byte strings, in UTF-8 where they hold text. \<^verbatim>\<open>strings.TrimSpace\<close>
  removes the leading and the trailing white space of Unicode
  (\<^verbatim>\<open>unicode.IsSpace\<close>): the six of ASCII (tab, line feed, vertical tab, form feed,
  carriage return, space), and U+0085, U+00A0, U+1680, U+2000 to U+200A, U+2028,
  U+2029, U+202F, U+205F and U+3000, here as their UTF-8 bytes. A byte that starts no
  such character ends the trimming, as the decoding error does in Go.
\<close>

definition is_space :: "char \<Rightarrow> bool" where
  "is_space c \<longleftrightarrow> c \<in> {CHR 0x09, CHR 0x0A, CHR 0x0B, CHR 0x0C, CHR 0x0D, CHR '' ''}"

definition space_runes :: "string list" where
  "space_runes =
     [[CHR 0xC2, CHR 0x85], [CHR 0xC2, CHR 0xA0], [CHR 0xE1, CHR 0x9A, CHR 0x80],
      [CHR 0xE2, CHR 0x80, CHR 0x80], [CHR 0xE2, CHR 0x80, CHR 0x81],
      [CHR 0xE2, CHR 0x80, CHR 0x82], [CHR 0xE2, CHR 0x80, CHR 0x83],
      [CHR 0xE2, CHR 0x80, CHR 0x84], [CHR 0xE2, CHR 0x80, CHR 0x85],
      [CHR 0xE2, CHR 0x80, CHR 0x86], [CHR 0xE2, CHR 0x80, CHR 0x87],
      [CHR 0xE2, CHR 0x80, CHR 0x88], [CHR 0xE2, CHR 0x80, CHR 0x89],
      [CHR 0xE2, CHR 0x80, CHR 0x8A], [CHR 0xE2, CHR 0x80, CHR 0xA8],
      [CHR 0xE2, CHR 0x80, CHR 0xA9], [CHR 0xE2, CHR 0x80, CHR 0xAF],
      [CHR 0xE2, CHR 0x81, CHR 0x9F], [CHR 0xE3, CHR 0x80, CHR 0x80]]"

text \<open>
  The number of bytes of the white-space character at the head of a string, and of the
  one at its end; 0 when there is none.
\<close>

definition leading_space :: "string \<Rightarrow> nat" where
  "leading_space s =
     (case s of
        [] \<Rightarrow> 0
      | c # cs \<Rightarrow>
          (if is_space c then 1
           else (case find (\<lambda>r. take (length r) s = r) space_runes of
                   None \<Rightarrow> 0
                 | Some r \<Rightarrow> length r)))"

definition trailing_space :: "string \<Rightarrow> nat" where
  "trailing_space s =
     (case rev s of
        [] \<Rightarrow> 0
      | c # cs \<Rightarrow>
          (if is_space c then 1
           else (case find (\<lambda>r. drop (length s - length r) s = r) space_runes of
                   None \<Rightarrow> 0
                 | Some r \<Rightarrow> length r)))"

lemma leading_space_Nil: "leading_space [] = 0"
  by (simp add: leading_space_def)

lemma leading_space_le: "leading_space s \<le> length s"
proof (cases s)
  case Nil
  then show ?thesis by (simp add: leading_space_Nil)
next
  case (Cons c cs)
  show ?thesis
  proof (cases "is_space c")
    case True
    with Cons have "leading_space s = 1" by (simp add: leading_space_def)
    with Cons show ?thesis by simp
  next
    case False
    show ?thesis
    proof (cases "find (\<lambda>r. take (length r) s = r) space_runes")
      case None
      have "leading_space s = 0"
        unfolding leading_space_def using Cons False None by (simp only: list.case if_False option.case)
      then show ?thesis by simp
    next
      case (Some r)
      have l: "leading_space s = length r"
        unfolding leading_space_def using Cons False Some by (simp only: list.case if_False option.case)
      from Some have "take (length r) s = r" by (auto simp: find_Some_iff)
      then have "length (take (length r) s) = length r" by simp
      then have "length r \<le> length s" by (simp add: min_def split: if_splits)
      with l show ?thesis by simp
    qed
  qed
qed

lemma trailing_space_Nil: "trailing_space [] = 0"
  by (simp add: trailing_space_def)

lemma trailing_space_le: "trailing_space s \<le> length s"
proof (cases "rev s")
  case Nil
  then have "s = []" by simp
  then show ?thesis by (simp add: trailing_space_Nil)
next
  case (Cons c cs)
  then have ne: "s \<noteq> []" by auto
  show ?thesis
  proof (cases "is_space c")
    case True
    have "trailing_space s = 1"
      unfolding trailing_space_def using Cons True by (simp only: list.case if_True)
    with ne show ?thesis by (cases s) simp_all
  next
    case False
    show ?thesis
    proof (cases "find (\<lambda>r. drop (length s - length r) s = r) space_runes")
      case None
      have "trailing_space s = 0"
        unfolding trailing_space_def using Cons False None by (simp only: list.case if_False option.case)
      then show ?thesis by simp
    next
      case (Some r)
      have l: "trailing_space s = length r"
        unfolding trailing_space_def using Cons False Some by (simp only: list.case if_False option.case)
      from Some have "drop (length s - length r) s = r" by (auto simp: find_Some_iff)
      then have "length (drop (length s - length r) s) = length r" by simp
      then have "length r \<le> length s" by simp
      with l show ?thesis by simp
    qed
  qed
qed

function TrimLeft :: "string \<Rightarrow> string" where
  "TrimLeft s = (if leading_space s = 0 then s else TrimLeft (drop (leading_space s) s))"
  by pat_completeness auto
termination
proof (relation "measure length")
  show "wf (measure length)" by simp
next
  fix s :: string
  assume "leading_space s \<noteq> 0"
  moreover from this have "s \<noteq> []" using leading_space_Nil by auto
  ultimately show "(drop (leading_space s) s, s) \<in> measure length" by simp
qed

declare TrimLeft.simps [simp del]

function TrimRight :: "string \<Rightarrow> string" where
  "TrimRight s =
     (if trailing_space s = 0 then s else TrimRight (take (length s - trailing_space s) s))"
  by pat_completeness auto
termination
proof (relation "measure length")
  show "wf (measure length)" by simp
next
  fix s :: string
  assume "trailing_space s \<noteq> 0"
  moreover from this have "s \<noteq> []" using trailing_space_Nil by auto
  ultimately show "(take (length s - trailing_space s) s, s) \<in> measure length" by simp
qed

declare TrimRight.simps [simp del]

definition TrimSpace :: "string \<Rightarrow> string" where
  "TrimSpace s = TrimRight (TrimLeft s)"

definition HasPrefix :: "string \<Rightarrow> string \<Rightarrow> bool" where
  "HasPrefix s p \<longleftrightarrow> take (length p) s = p"

text \<open>\<^verbatim>\<open>strings.Split(s, sep)\<close> for a separator of one byte: never the empty list.\<close>

fun Split :: "char \<Rightarrow> string \<Rightarrow> string list" where
  "Split c [] = [[]]"
| "Split c (x # xs) =
     (if x = c then [] # Split c xs
      else (case Split c xs of [] \<Rightarrow> [[x]] | y # ys \<Rightarrow> (x # y) # ys))"

text \<open>
  \<^verbatim>\<open>strings.SplitN(s, "\n", 2)\<close>: the text before the first line feed, and the text
  after it when there is a line feed (\<^verbatim>\<open>len(parts) > 1\<close>).
\<close>

fun SplitN2 :: "string \<Rightarrow> string \<times> string option" where
  "SplitN2 [] = ([], None)"
| "SplitN2 (x # xs) =
     (if x = CHR 0x0A then ([], Some xs)
      else (case SplitN2 xs of (a, r) \<Rightarrow> (x # a, r)))"

lemma length_TrimLeft: "length (TrimLeft s) \<le> length s"
proof (induction s rule: TrimLeft.induct)
  case (1 s)
  show ?case
  proof (cases "leading_space s = 0")
    case True
    then show ?thesis by (subst TrimLeft.simps) simp
  next
    case False
    from "1" [OF False] have "length (TrimLeft (drop (leading_space s) s)) \<le> length s" by simp
    with False show ?thesis by (subst TrimLeft.simps) simp
  qed
qed

lemma length_TrimRight: "length (TrimRight s) \<le> length s"
proof (induction s rule: TrimRight.induct)
  case (1 s)
  show ?case
  proof (cases "trailing_space s = 0")
    case True
    then show ?thesis by (subst TrimRight.simps) simp
  next
    case False
    from "1" [OF False]
    have "length (TrimRight (take (length s - trailing_space s) s)) \<le> length s" by simp
    with False show ?thesis by (subst TrimRight.simps) simp
  qed
qed

lemma length_TrimSpace: "length (TrimSpace s) \<le> length s"
  unfolding TrimSpace_def
  using length_TrimRight [of "TrimLeft s"] length_TrimLeft [of s] by simp

lemma length_SplitN2: "SplitN2 s = (a, Some r) \<Longrightarrow> length r < length s"
  by (induction s arbitrary: a) (auto split: if_splits prod.splits)

section \<open>The query dispatcher (icebase.go)\<close>

subsection \<open>\<^verbatim>\<open>SplitNonEmptyQueries\<close>\<close>

text \<open>
  The closure \<^verbatim>\<open>separateComments\<close> appends to \<^verbatim>\<open>filtered\<close>; here it returns
  what it appends. It calls itself on the text after the first line of a comment.
\<close>

function separateComments :: "string \<Rightarrow> string list" where
  "separateComments s =
     (if TrimSpace s = [] then []
      else if \<not> HasPrefix (TrimSpace s) ''--'' then [TrimSpace s]
      else (case snd (SplitN2 (TrimSpace s)) of
              None \<Rightarrow> [fst (SplitN2 (TrimSpace s))]
            | Some rest \<Rightarrow> fst (SplitN2 (TrimSpace s)) # separateComments rest))"
  by pat_completeness auto
termination
proof (relation "measure length")
  show "wf (measure length)" by simp
next
  fix s rest
  assume "snd (SplitN2 (TrimSpace s)) = Some rest"
  then have "SplitN2 (TrimSpace s) = (fst (SplitN2 (TrimSpace s)), Some rest)"
    by (metis prod.collapse)
  then have "length rest < length (TrimSpace s)"
    by (rule length_SplitN2)
  with length_TrimSpace [of s] show "(rest, s) \<in> measure length"
    by simp
qed

definition SplitNonEmptyQueries :: "string \<Rightarrow> string list" where
  "SplitNonEmptyQueries body = concat (map separateComments (Split CHR '';'' body))"

subsection \<open>\<^verbatim>\<open>handleQuery\<close>\<close>

text \<open>
  The operation kinds of the parser. The parser is not among the sources: its kinds
  are those that \<^verbatim>\<open>handleQuery\<close> names, and \<open>OpOther\<close> for the rest.
\<close>

datatype Operation = OpCreateTable | OpInsert | OpSelect | OpVacuum | OpOther

text \<open>
  What \<^verbatim>\<open>handleQuery\<close> calls outside icebase.go, over a state \<open>'w\<close> of everything
  outside it: the in-memory engine with its transaction, the log databases, the files,
  and the \<^verbatim>\<open>Log\<close> handles, which are named by their table. A call returns its error,
  or none, and the state it leaves.
\<close>

record 'w deps =
  Begin :: "'w \<Rightarrow> error option \<times> 'w"
  Rollback :: "'w \<Rightarrow> 'w"
  Parse :: "string \<Rightarrow> Operation \<times> string"
  OpString :: "Operation \<Rightarrow> string"
  CreateViewOfParquet :: "string \<Rightarrow> 'w \<Rightarrow> error option \<times> 'w"
  PlaySchemaLogForward :: "string \<Rightarrow> 'w \<Rightarrow> error option \<times> 'w"
  Merge :: "string \<Rightarrow> 'w \<Rightarrow> error option \<times> 'w"
  Query :: "string \<Rightarrow> 'w \<Rightarrow> (nat \<times> query_result) \<times> 'w"
  logDDL :: "string \<Rightarrow> string \<Rightarrow> 'w \<Rightarrow> error option \<times> 'w"
  LogInsert :: "string \<Rightarrow> 'w \<Rightarrow> error option \<times> 'w"

record IceBaseOptions =
  storageDir :: string
  enableQuerySplitting :: bool

record IceBase =
  options :: IceBaseOptions
  ib_storageDir :: string
  authToken :: string

text \<open>\<^verbatim>\<open>NewIceBase\<close> with no option: the defaults. The token comes from the environment.\<close>

definition NewIceBase :: "string \<Rightarrow> IceBase" where
  "NewIceBase token =
     \<lparr>options = \<lparr>storageDir = ''icebase_tables'', enableQuerySplitting = False\<rparr>,
      ib_storageDir = ''icebase_tables'', authToken = token\<rparr>"

definition WithStorageDir :: "string \<Rightarrow> IceBase \<Rightarrow> IceBase" where
  "WithStorageDir dir ib = ib\<lparr>options := (options ib)\<lparr>storageDir := dir\<rparr>, ib_storageDir := dir\<rparr>"

definition WithQuerySplittingEnabled :: "IceBase \<Rightarrow> IceBase" where
  "WithQuerySplittingEnabled ib = ib\<lparr>options := (options ib)\<lparr>enableQuerySplitting := True\<rparr>\<rparr>"

text \<open>The response that the \<^verbatim>\<open>VACUUM\<close> branch builds: \<^verbatim>\<open>Data\<close> made empty, the rest zero.\<close>

definition vacuum_response :: QueryResponse where
  "vacuum_response = \<lparr>Meta = None, Data = Some [], Rows = 0, Elapsed = 0\<rparr>"

text \<open>
  The statements of the closure after \<^verbatim>\<open>Begin\<close> (icebase.go, lines 344 to 416), in
  four steps: the recovery of the table, the execution, the schema log, the insert log.
  \<^verbatim>\<open>logByName\<close> never fails, so \<^verbatim>\<open>dblog\<close> is not nil exactly when the table name
  is not empty.
\<close>

definition recover :: "'w deps \<Rightarrow> Operation \<Rightarrow> string \<Rightarrow> 'w \<Rightarrow> error option \<times> 'w" where
  "recover d op table w =
     (if table \<noteq> []
      then (if op = OpSelect \<or> op = OpVacuum then CreateViewOfParquet d table w
            else PlaySchemaLogForward d table w)
      else (None, w))"

definition execute ::
  "'w deps \<Rightarrow> Operation \<Rightarrow> string \<Rightarrow> string \<Rightarrow> 'w \<Rightarrow> (error + QueryResponse) \<times> 'w" where
  "execute d op table query w =
     (if op = OpVacuum
      then (if table = [] then (Inl (E ''VACUUM requires a table name''), w)
            else (case Merge d table w of
                    (Some e, w') \<Rightarrow> (Inl (Wrap ''VACUUM failed'' e), w')
                  | (None, w') \<Rightarrow> (Inr vacuum_response, w')))
      else (case Query d query w of
              ((elapsed, qr), w') \<Rightarrow> (ExecuteQuery elapsed qr, w')))"

definition emit :: "'w deps \<Rightarrow> Operation \<Rightarrow> string \<Rightarrow> string \<Rightarrow> 'w \<Rightarrow> error option \<times> 'w" where
  "emit d op table query w =
     (if op = OpCreateTable \<and> table \<noteq> [] then logDDL d table query w
      else if op = OpInsert \<and> table \<noteq> [] then LogInsert d table w
      else (None, w))"

definition statement :: "'w deps \<Rightarrow> string \<Rightarrow> 'w \<Rightarrow> (error + QueryResponse) \<times> 'w" where
  "statement d query w =
     (case Parse d query of
        (op, table) \<Rightarrow>
          (case recover d op table w of
             (Some e, w1) \<Rightarrow> (Inl e, w1)
           | (None, w1) \<Rightarrow>
               (case execute d op table query w1 of
                  (Inl e, w2) \<Rightarrow> (Inl e, w2)
                | (Inr response, w2) \<Rightarrow>
                    (case emit d op table query w2 of
                       (Some e, w3) \<Rightarrow> (Inl e, w3)
                     | (None, w3) \<Rightarrow> (Inr response, w3)))))"

text \<open>
  The closure run for one statement: the transaction is begun, and rolled back by the
  deferred call on every path after a successful \<^verbatim>\<open>Begin\<close>.
\<close>

definition handle_one :: "'w deps \<Rightarrow> string \<Rightarrow> 'w \<Rightarrow> (error + QueryResponse) \<times> 'w" where
  "handle_one d query w =
     (case Begin d w of
        (Some e, w') \<Rightarrow> (Inl (Wrap ''failed to begin DATA transaction'' e), w')
      | (None, w') \<Rightarrow>
          (case statement d query w' of (r, w'') \<Rightarrow> (r, Rollback d w'')))"

text \<open>
  The loop over \<^verbatim>\<open>filteredQueries\<close>. The variable \<^verbatim>\<open>response\<close> lives outside the
  loop and starts as the nil pointer.
\<close>

fun process ::
  "'w deps \<Rightarrow> string list \<Rightarrow> QueryResponse option \<Rightarrow> 'w
   \<Rightarrow> (error + QueryResponse option) \<times> 'w" where
  "process d [] response w = (Inr response, w)"
| "process d (q # qs) response w =
     (case handle_one d q w of
        (Inl e, w') \<Rightarrow> (Inl e, w')
      | (Inr r, w') \<Rightarrow> process d qs (Some r) w')"

definition filteredQueries :: "IceBase \<Rightarrow> string \<Rightarrow> string list" where
  "filteredQueries ib body =
     (if enableQuerySplitting (options ib) then SplitNonEmptyQueries body
      else [TrimSpace body])"

text \<open>
  \<^verbatim>\<open>handleQuery\<close> returns the JSON text and no error, or the empty string and the
  error: \<open>Inr\<close> of the document, or \<open>Inl\<close> of the error. \<^verbatim>\<open>json.Marshal\<close> does not
  fail on a \<^verbatim>\<open>QueryResponse\<close> of strings, an integer and a finite float.
\<close>

definition handleQuery :: "IceBase \<Rightarrow> 'w deps \<Rightarrow> string \<Rightarrow> 'w \<Rightarrow> (error + json) \<times> 'w" where
  "handleQuery ib d body w =
     (case process d (filteredQueries ib body) None w of
        (Inl e, w') \<Rightarrow> (Inl e, w')
      | (Inr response, w') \<Rightarrow> (Inr (Marshal response), w'))"

definition handleParse :: "'w deps \<Rightarrow> string \<Rightarrow> error + json" where
  "handleParse d body =
     (case Parse d body of
        (op, table) \<Rightarrow> Inr (JObj [(''operation'', JStr (OpString d op)), (''table'', JStr table)]))"

definition PostEndpoint ::
  "IceBase \<Rightarrow> 'w deps \<Rightarrow> string \<Rightarrow> string \<Rightarrow> 'w \<Rightarrow> (error + json) \<times> 'w" where
  "PostEndpoint ib d endpoint body w =
     (if endpoint = ''/query'' then handleQuery ib d body w
      else if endpoint = ''/parse'' then (handleParse d body, w)
      else (Inl (E (''unknown endpoint: '' @ endpoint)), w))"

text \<open>
  The statements of a list handled one after the other, each from the state that the
  one before has left, when all of them succeed: their responses and the last state.
\<close>

fun runs :: "'w deps \<Rightarrow> string list \<Rightarrow> 'w \<Rightarrow> (QueryResponse list \<times> 'w) option" where
  "runs d [] w = Some ([], w)"
| "runs d (q # qs) w =
     (case handle_one d q w of
        (Inl e, w') \<Rightarrow> None
      | (Inr r, w') \<Rightarrow>
          (case runs d qs w' of None \<Rightarrow> None | Some (rs, w'') \<Rightarrow> Some (r # rs, w'')))"

subsection \<open>\<^verbatim>\<open>RequestHandler\<close>\<close>

text \<open>
  The parts of a request that the handler reads: the method, \<^verbatim>\<open>r.URL.Path\<close>, the
  \<^verbatim>\<open>Authorization\<close> header (empty when absent) and what \<^verbatim>\<open>io.ReadAll(r.Body)\<close>
  returns. The response is what reaches the client (status, headers, body) and the
  status that the logging writer keeps for the access log. A body \<open>ErrorText e\<close> is the
  text of the error \<open>e\<close>.
\<close>

record Request =
  Method :: string
  Path :: string
  Authorization :: string
  ReqBody :: "error + string"

datatype body = Text string | ErrorText error | Doc json | Broken

record Response =
  status :: nat
  header :: "string \<rightharpoonup> string"
  content :: body
  logged_status :: nat

definition cors :: "string \<rightharpoonup> string" where
  "cors = [''Access-Control-Allow-Origin'' \<mapsto> ''*'',
           ''Access-Control-Allow-Methods'' \<mapsto> ''POST, GET, OPTIONS'',
           ''Access-Control-Allow-Headers'' \<mapsto> ''Content-Type'']"

text \<open>
  \<^verbatim>\<open>http.Error(w, msg, code)\<close>: the plain-text headers, the status, the message and a
  line feed (left implicit after the text of an error). Through the logging writer the status is recorded, through the bare
  writer \<^verbatim>\<open>w\<close> it is not and the recorded status stays 200.
\<close>

definition line :: "body \<Rightarrow> body" where
  "line b = (case b of Text s \<Rightarrow> Text (s @ [CHR 0x0A]) | other \<Rightarrow> other)"

definition http_Error :: "bool \<Rightarrow> body \<Rightarrow> nat \<Rightarrow> Response" where
  "http_Error through_lrw msg code =
     \<lparr>status = code,
      header = cors(''Content-Type'' \<mapsto> ''text/plain; charset=utf-8'',
                    ''X-Content-Type-Options'' \<mapsto> ''nosniff''),
      content = line msg,
      logged_status = (if through_lrw then code else 200)\<rparr>"

text \<open>
  The handler. The third argument is the error of writing the response body, if the
  write fails: the status line has gone out by then, so the client keeps status 200
  and a broken body, and the logging writer records 500.
\<close>

definition RequestHandler ::
  "IceBase \<Rightarrow> 'w deps \<Rightarrow> error option \<Rightarrow> Request \<Rightarrow> 'w \<Rightarrow> Response \<times> 'w" where
  "RequestHandler ib d write_error r w =
     (if authToken ib \<noteq> [] \<and> Authorization r \<noteq> ''Bearer '' @ authToken ib
      then (http_Error True (Text ''Unauthorized'') 401, w)
      else if Method r = ''OPTIONS''
      then (\<lparr>status = 200, header = cors, content = Text [], logged_status = 200\<rparr>, w)
      else if Method r \<noteq> ''POST''
      then (http_Error True (Text ''Method not allowed'') 405, w)
      else (case ReqBody r of
              Inl e \<Rightarrow> (http_Error True (ErrorText (Wrap ''failed to read request body'' e)) 400, w)
            | Inr body \<Rightarrow>
                (case PostEndpoint ib d (Path r) body w of
                   (Inl e, w') \<Rightarrow> (http_Error False (ErrorText e) 400, w')
                 | (Inr jsonResponse, w') \<Rightarrow>
                     (case write_error of
                        None \<Rightarrow>
                          (\<lparr>status = 200,
                            header = cors(''Content-Type'' \<mapsto> ''application/json''),
                            content = Doc jsonResponse, logged_status = 200\<rparr>, w')
                      | Some e \<Rightarrow>
                          (\<lparr>status = 200,
                            header = cors(''Content-Type'' \<mapsto> ''application/json''),
                            content = Broken, logged_status = 500\<rparr>, w')))))"

section \<open>Paths and files (packages \<^verbatim>\<open>path/filepath\<close> and \<^verbatim>\<open>os\<close>)\<close>

subsection \<open>\<^verbatim>\<open>filepath.Clean\<close>, \<^verbatim>\<open>Join\<close> and \<^verbatim>\<open>Dir\<close> on Unix\<close>

text \<open>
  \<^verbatim>\<open>Clean\<close> works on the elements between slashes: an empty element and \<^verbatim>\<open>.\<close>
  are dropped; \<^verbatim>\<open>..\<close> removes the element before it when there is one that is not
  itself \<^verbatim>\<open>..\<close>, is dropped at the root, and is kept otherwise. The list \<open>out\<close> holds
  the elements kept so far, the last one first.
\<close>

fun clean_step :: "bool \<Rightarrow> string list \<Rightarrow> string \<Rightarrow> string list" where
  "clean_step rooted out el =
     (if el = [] \<or> el = ''.'' then out
      else if el = ''..'' then
        (case out of
           [] \<Rightarrow> (if rooted then [] else [''..''])
         | x # xs \<Rightarrow> (if x = ''..'' then ''..'' # x # xs else xs))
      else el # out)"

definition Clean :: "string \<Rightarrow> string" where
  "Clean path =
     (if path = [] then ''.''
      else
        (let rooted = (hd path = CHR ''/'');
             out = rev (foldl (clean_step rooted) [] (Split CHR ''/'' path));
             res = (if rooted then ''/'' else []) @ intersperse ''/'' out
         in if res = [] then ''.'' else res))"

text \<open>
  \<^verbatim>\<open>Join\<close>: from the first element that is not empty on, the elements are joined by
  slashes and the result is cleaned; with no such element the result is empty.
\<close>

definition Join :: "string list \<Rightarrow> string" where
  "Join elem =
     (case dropWhile (\<lambda>e. e = []) elem of
        [] \<Rightarrow> []
      | e # es \<Rightarrow> Clean (intersperse ''/'' (e # es)))"

text \<open>\<^verbatim>\<open>Dir\<close>: the path up to and with its last slash, cleaned.\<close>

definition Dir :: "string \<Rightarrow> string" where
  "Dir path = Clean (rev (dropWhile (\<lambda>c. c \<noteq> CHR ''/'') (rev path)))"

subsection \<open>The file system\<close>

text \<open>
  A row of \<^verbatim>\<open>insert_log\<close> (its columns \<^verbatim>\<open>id\<close>, \<^verbatim>\<open>partition\<close>,
  \<^verbatim>\<open>tombstoned_unix_time\<close> and \<^verbatim>\<open>size\<close>) and the content of a log database: the rows of
  \<^verbatim>\<open>schema_log\<close> (timestamp and query) and of \<^verbatim>\<open>insert_log\<close>, in the order of
  their insertion. Both tables exist in every database that a \<^verbatim>\<open>Log\<close> queries,
  since \<^verbatim>\<open>getDB\<close> creates them before it hands the connection out.
\<close>

record insert_row =
  row_id :: "byte list"
  row_partition :: string
  tombstoned_unix_time :: int
  row_size :: int

record logdb =
  schema_log :: "(int \<times> string) list"
  insert_log :: "insert_row list"

text \<open>
  What a path names: a directory, a file with its bytes, or a database file of the
  engine with its tables. The file system maps the paths that exist.
\<close>

datatype node = Directory | File "byte list" | DBFile logdb

type_synonym filesystem = "string \<rightharpoonup> node"

text \<open>
  The calls into the operating system and into the engine behind the log database
  that can fail for reasons outside the model (permissions, a full disk, a lost
  connection), and the faults of a run: which of these calls fail, and with which
  error. \<open>CallNext i\<close> is the call of \<^verbatim>\<open>rows.Next()\<close> that would deliver row \<open>i\<close>,
  \<open>CallWriteFile p\<close> the opening of the file \<open>p\<close> for writing, and \<open>CallWrite p n\<close> the
  writing into the opened file \<open>p\<close> that breaks off after \<open>n\<close> bytes.
\<close>

datatype call =
    CallMkdirAll string
  | CallInitializeDuckDB
  | CallAttach string
  | CallCreateTables
  | CallInsertLog
  | CallInsertSchema
  | CallQuerySchema
  | CallNext nat
  | CallScan nat
  | CallStat string
  | CallReadFile string
  | CallWriteFile string
  | CallWrite string nat
  | CallUpdateSize
  | CallBegin

type_synonym faults = "call \<Rightarrow> error option"

definition guarded :: "error option \<Rightarrow> error + 'a \<Rightarrow> error + 'a" where
  "guarded f r = (case f of Some e \<Rightarrow> Inl e | None \<Rightarrow> r)"

text \<open>
  The current directory, the root and the directories above the current one are
  always there; any other path is what the map says.
\<close>

definition always_there :: "string \<Rightarrow> bool" where
  "always_there q \<longleftrightarrow>
     q = ''.'' \<or> q = ''/'' \<or> q = ''..'' \<or> drop (length q - 3) q = ''/..''"

definition node_at :: "filesystem \<Rightarrow> string \<Rightarrow> node option" where
  "node_at fs q = (if always_there q then Some Directory else fs q)"

text \<open>
  The paths that \<^verbatim>\<open>os.MkdirAll\<close> visits, outermost first: the path cut before each
  slash that is not its first character, then the path itself.
\<close>

fun prefixes :: "string \<Rightarrow> string \<Rightarrow> string list" where
  "prefixes acc [] = (if acc = [] then [] else [acc])"
| "prefixes acc (c # cs) =
     (if c = CHR ''/'' \<and> acc \<noteq> [] then acc # prefixes (acc @ [c]) cs
      else prefixes (acc @ [c]) cs)"

text \<open>
  \<^verbatim>\<open>os.MkdirAll\<close>: every path on the way becomes a directory unless it is one; the
  call fails when one of them exists and is not a directory.
\<close>

fun mkdirs :: "string list \<Rightarrow> filesystem \<Rightarrow> error + filesystem" where
  "mkdirs [] fs = Inr fs"
| "mkdirs (p # ps) fs =
     (case node_at fs p of
        None \<Rightarrow> mkdirs ps (fs(p \<mapsto> Directory))
      | Some Directory \<Rightarrow> mkdirs ps fs
      | Some _ \<Rightarrow> Inl (E (''mkdir '' @ p @ '': not a directory'')))"

definition MkdirAll :: "string \<Rightarrow> filesystem \<Rightarrow> error + filesystem" where
  "MkdirAll path fs = mkdirs (prefixes [] path) fs"

text \<open>
  The size and the kind that \<^verbatim>\<open>os.Stat\<close> reports. The size of a directory or of a
  database file is left open by the model and reported as 0.
\<close>

record FileInfo =
  fi_size :: int
  fi_isDir :: bool

text \<open>
  The way to a path through the paths above it, outermost first: the first one that
  is missing gives the error for which \<^verbatim>\<open>os.IsNotExist\<close> holds, the first one that
  is not a directory gives the error \<^verbatim>\<open>not a directory\<close>.
\<close>

fun walk :: "string \<Rightarrow> string list \<Rightarrow> filesystem \<Rightarrow> error option" where
  "walk path [] fs = None"
| "walk path (q # qs) fs =
     (case node_at fs q of
        None \<Rightarrow> Some (ErrNotExist path)
      | Some Directory \<Rightarrow> walk path qs fs
      | Some _ \<Rightarrow> Some (E (path @ '': not a directory'')))"

definition lookup :: "string \<Rightarrow> filesystem \<Rightarrow> error + node" where
  "lookup path fs =
     (case walk path (butlast (prefixes [] path)) fs of
        Some e \<Rightarrow> Inl e
      | None \<Rightarrow>
          (case node_at fs path of
             None \<Rightarrow> Inl (ErrNotExist path)
           | Some n \<Rightarrow> Inr n))"

definition os_Stat :: "string \<Rightarrow> filesystem \<Rightarrow> error + FileInfo" where
  "os_Stat path fs =
     (case lookup path fs of
        Inl e \<Rightarrow> Inl e
      | Inr Directory \<Rightarrow> Inr \<lparr>fi_size = 0, fi_isDir = True\<rparr>
      | Inr (File bs) \<Rightarrow> Inr \<lparr>fi_size = int (length bs), fi_isDir = False\<rparr>
      | Inr (DBFile db) \<Rightarrow> Inr \<lparr>fi_size = 0, fi_isDir = False\<rparr>)"

section \<open>The filesystem storage backend (main.go)\<close>

text \<open>
  \<^verbatim>\<open>os.IsNotExist\<close> looks at the error itself, not through a wrapper of
  \<^verbatim>\<open>fmt.Errorf\<close>.
\<close>

definition IsNotExist :: "error \<Rightarrow> bool" where
  "IsNotExist e = (case e of ErrNotExist p \<Rightarrow> True | _ \<Rightarrow> False)"

text \<open>
  The bytes of a file. Those of a database file are the engine's: they are given by the
  encoding \<open>enc\<close>.
\<close>

definition os_ReadFile ::
  "(logdb \<Rightarrow> byte list) \<Rightarrow> faults \<Rightarrow> string \<Rightarrow> filesystem \<Rightarrow> error + byte list" where
  "os_ReadFile enc f path fs =
     guarded (f (CallReadFile path))
       (case lookup path fs of
          Inl e \<Rightarrow> Inl e
        | Inr Directory \<Rightarrow> Inl (E (''read '' @ path @ '': is a directory''))
        | Inr (File bs) \<Rightarrow> Inr bs
        | Inr (DBFile d) \<Rightarrow> Inr (enc d))"

text \<open>
  \<^verbatim>\<open>os.WriteFile\<close> opens the file (\<^verbatim>\<open>O_WRONLY|O_CREATE|O_TRUNC\<close>), writes the bytes and
  closes it. The operating system may refuse to open the file (it is read-only): that
  is a fault of the run, and nothing changes. Otherwise the way to the path decides: a
  missing directory on it gives the error for which \<^verbatim>\<open>os.IsNotExist\<close> holds, a file
  on it the error \<^verbatim>\<open>not a directory\<close>, and a directory at the path itself cannot be
  opened for writing. Once the file is open its old content is gone. The writing may
  break off (the disk is full): the file then holds the bytes written so far, and the
  error is returned. In every other case the path holds the bytes afterwards.
\<close>

definition short_write :: "faults \<Rightarrow> string \<Rightarrow> byte list \<Rightarrow> (nat \<times> error) option" where
  "short_write f path data =
     (case find (\<lambda>n. f (CallWrite path n) \<noteq> None) [0 ..< Suc (length data)] of
        None \<Rightarrow> None
      | Some n \<Rightarrow> map_option (Pair n) (f (CallWrite path n)))"

definition os_WriteFile ::
  "faults \<Rightarrow> string \<Rightarrow> byte list \<Rightarrow> filesystem \<Rightarrow> error option \<times> filesystem" where
  "os_WriteFile f path data fs =
     (case f (CallWriteFile path) of
        Some e \<Rightarrow> (Some e, fs)
      | None \<Rightarrow>
          (case walk path (butlast (prefixes [] path)) fs of
             Some e \<Rightarrow> (Some e, fs)
           | None \<Rightarrow>
               (case node_at fs path of
                  Some Directory \<Rightarrow> (Some (E (''open '' @ path @ '': is a directory'')), fs)
                | _ \<Rightarrow>
                    (case short_write f path data of
                       Some (n, e) \<Rightarrow> (Some e, fs(path \<mapsto> File (take n data)))
                     | None \<Rightarrow> (None, fs(path \<mapsto> File data))))))"

text \<open>\<^verbatim>\<open>filepath.Base\<close>: the last element of the path.\<close>

definition Base :: "string \<Rightarrow> string" where
  "Base path =
     (if path = [] then ''.''
      else (let p = rev (dropWhile (\<lambda>c. c = CHR ''/'') (rev path))
            in if p = [] then ''/'' else rev (takeWhile (\<lambda>c. c \<noteq> CHR ''/'') (rev p))))"

text \<open>
  \<^verbatim>\<open>FSConfig\<close>, the write options, and \<^verbatim>\<open>s3FileInfo\<close> without the modification
  time, which the file system of the model does not keep.
\<close>

record FSConfig =
  rootDir :: string

datatype WriteOption = WithIfMatch string

record writeConfig =
  wc_etag :: string

definition apply_opts :: "WriteOption list \<Rightarrow> writeConfig" where
  "apply_opts opts = foldl (\<lambda>c opt. case opt of WithIfMatch e \<Rightarrow> c\<lparr>wc_etag := e\<rparr>) \<lparr>wc_etag = []\<rparr> opts"

record s3FileInfo =
  s3_name :: string
  s3_size :: int
  s3_etag :: string
  s3_isDir :: bool

definition fullPath :: "FSConfig \<Rightarrow> string \<Rightarrow> string" where
  "fullPath cfg path = Join [rootDir cfg, path]"

text \<open>
  \<^verbatim>\<open>FSStorage.Stat\<close>. The first argument is \<^verbatim>\<open>bytesToETag\<close>, the MD5 sum of the bytes
  in hexadecimal: \<^verbatim>\<open>crypto/md5\<close> is a library and stays a parameter. The third argument
  holds the faults of the run.
\<close>

definition FS_Stat ::
  "(byte list \<Rightarrow> string) \<Rightarrow> (logdb \<Rightarrow> byte list) \<Rightarrow> faults \<Rightarrow> FSConfig \<Rightarrow> string \<Rightarrow> filesystem
   \<Rightarrow> error + s3FileInfo" where
  "FS_Stat bytesToETag enc f cfg path fs =
     (case guarded (f (CallStat (fullPath cfg path))) (os_Stat (fullPath cfg path) fs) of
        Inl e \<Rightarrow> Inl e
      | Inr fi \<Rightarrow>
          (if \<not> fi_isDir fi
           then (case os_ReadFile enc f (fullPath cfg path) fs of
                   Inl e \<Rightarrow> Inl e
                 | Inr data \<Rightarrow>
                     Inr \<lparr>s3_name = Base (fullPath cfg path), s3_size = fi_size fi,
                          s3_etag = bytesToETag data, s3_isDir = fi_isDir fi\<rparr>)
           else Inr \<lparr>s3_name = Base (fullPath cfg path), s3_size = fi_size fi,
                     s3_etag = [], s3_isDir = fi_isDir fi\<rparr>))"

text \<open>
  \<^verbatim>\<open>FSStorage.Write\<close>: the check of the ETag when the option has set one that is not
  empty, then the write, retried once after the directory has been made when the
  first attempt finds no such file or directory.
\<close>

definition FS_Write ::
  "(byte list \<Rightarrow> string) \<Rightarrow> (logdb \<Rightarrow> byte list) \<Rightarrow> faults \<Rightarrow> FSConfig \<Rightarrow> string \<Rightarrow> byte list
   \<Rightarrow> WriteOption list \<Rightarrow> filesystem \<Rightarrow> error option \<times> filesystem" where
  "FS_Write bytesToETag enc f cfg path data opts fs =
     (let c = apply_opts opts;
          check =
            (if wc_etag c \<noteq> []
             then (case FS_Stat bytesToETag enc f cfg path fs of
                     Inl e \<Rightarrow>
                       Some (Wrap (''failed to check etag, '' @ path @ '' does not exist'') e)
                   | Inr fi \<Rightarrow>
                       (if s3_etag fi \<noteq> wc_etag c
                        then Some (E (''IfMatch: ETag mismatch (current: '' @ s3_etag fi @ '')''))
                        else None))
             else None)
      in case check of
           Some e \<Rightarrow> (Some e, fs)
         | None \<Rightarrow>
             (case os_WriteFile f (fullPath cfg path) data fs of
                (None, fs') \<Rightarrow> (None, fs')
              | (Some err, fs') \<Rightarrow>
                  (if IsNotExist err
                   then (case guarded (f (CallMkdirAll (Dir (fullPath cfg path))))
                                (MkdirAll (Dir (fullPath cfg path)) fs') of
                           Inl e \<Rightarrow>
                             (Some (Wrap (''failed to create directory '' @
                                          Dir (fullPath cfg path)) e), fs')
                         | Inr fs1 \<Rightarrow> os_WriteFile f (fullPath cfg path) data fs1)
                   else (Some err, fs'))))"

text \<open>Stand-ins for the MD5 sum and for the encoding of a database file in the examples.\<close>

definition etag0 :: "byte list \<Rightarrow> string" where
  "etag0 bs = hex_encode bs"

definition enc0 :: "logdb \<Rightarrow> byte list" where
  "enc0 d = []"

section \<open>The log store (log.go)\<close>

subsection \<open>The environment of a call\<close>

text \<open>
  The environment of a call says which calls fail and with which error, which
  identifier \<^verbatim>\<open>uuidv7()\<close> generates, and what \<^verbatim>\<open>CURRENT_TIMESTAMP\<close> is.
\<close>

record env =
  fails :: faults
  uuidv7 :: "byte list"
  now :: int

text \<open>
  The analytical engine is a black box. A transaction is the list of the statements
  executed in it so far; the engine decides from them whether it rejects the next
  statement, which bytes a \<^verbatim>\<open>COPY\<close> writes, and what a query answers (with the time
  that the answer takes).
\<close>

type_synonym tx = "string list"

record engine =
  rejects :: "tx \<Rightarrow> string \<Rightarrow> error option"
  copy_bytes :: "tx \<Rightarrow> string \<Rightarrow> byte list"
  answer :: "tx \<Rightarrow> string \<Rightarrow> nat \<times> query_result"

text \<open>\<^verbatim>\<open>tx.Exec(stmt)\<close>: the error of the engine, or the statement joins the transaction.\<close>

definition tx_Exec :: "engine \<Rightarrow> string \<Rightarrow> tx \<Rightarrow> error + tx" where
  "tx_Exec eng stmt t = (case rejects eng t stmt of Some e \<Rightarrow> Inl e | None \<Rightarrow> Inr (t @ [stmt]))"

subsection \<open>\<^verbatim>\<open>Log\<close> and \<^verbatim>\<open>getDB\<close>\<close>

text \<open>
  The field \<^verbatim>\<open>db\<close> is nil (\<open>None\<close>) or the connection, which is known by the path of
  the database file that it has attached.
\<close>

record Log =
  db :: "string option"
  tableName :: string

definition NewLog :: "string \<Rightarrow> Log" where
  "NewLog table = \<lparr>db = None, tableName = table\<rparr>"

definition empty_db :: logdb where
  "empty_db = \<lparr>schema_log = [], insert_log = []\<rparr>"

definition read_db :: "string \<Rightarrow> filesystem \<Rightarrow> logdb" where
  "read_db p fs = (case fs p of Some (DBFile d) \<Rightarrow> d | _ \<Rightarrow> empty_db)"

text \<open>
  \<^verbatim>\<open>ATTACH DATABASE '<path>' AS log_db; USE log_db;\<close> opens the database file, and
  creates it when the path does not exist.
\<close>

definition attach :: "env \<Rightarrow> string \<Rightarrow> filesystem \<Rightarrow> error + filesystem" where
  "attach env dbPath fs =
     guarded (fails env (CallAttach dbPath))
       (case fs dbPath of
          None \<Rightarrow> Inr (fs(dbPath \<mapsto> DBFile empty_db))
        | Some (DBFile d) \<Rightarrow> Inr fs
        | Some _ \<Rightarrow> Inl (E (''cannot open '' @ dbPath @ '': not a database file'')))"

definition getDB :: "env \<Rightarrow> Log \<Rightarrow> filesystem \<Rightarrow> (error + string) \<times> Log \<times> filesystem" where
  "getDB env l fs =
     (case db l of
        Some p \<Rightarrow> (Inr p, l, fs)
      | None \<Rightarrow>
          (let logDir = Join [''storage'', tableName l, ''log''] in
           case guarded (fails env (CallMkdirAll logDir)) (MkdirAll logDir fs) of
             Inl e \<Rightarrow> (Inl (Wrap ''failed to create log directory'' e), l, fs)
           | Inr fs1 \<Rightarrow>
               (let dbPath = Join [logDir, ''log.db''] in
                case fails env CallInitializeDuckDB of
                  Some e \<Rightarrow> (Inl (Wrap ''failed to initialize database'' e), l, fs1)
                | None \<Rightarrow>
                    (case attach env dbPath fs1 of
                       Inl e \<Rightarrow> (Inl (Wrap ''failed to attach log database'' e), l, fs1)
                     | Inr fs2 \<Rightarrow>
                         (case fails env CallCreateTables of
                            Some e \<Rightarrow> (Inl (Wrap ''failed to create schema_log table'' e), l, fs2)
                          | None \<Rightarrow> (Inr dbPath, l\<lparr>db := Some dbPath\<rparr>, fs2))))))"

subsection \<open>\<^verbatim>\<open>createTable\<close>\<close>

text \<open>
  The \<^verbatim>\<open>INSERT INTO schema_log\<close>: the timestamp is the primary key, so the statement
  fails when a row has it already.
\<close>

definition insert_schema_row :: "env \<Rightarrow> string \<Rightarrow> string \<Rightarrow> filesystem \<Rightarrow> error + filesystem" where
  "insert_schema_row env p raw fs =
     guarded (fails env CallInsertSchema)
       (let d = read_db p fs in
        if now env \<in> fst ` set (schema_log d)
        then Inl (E ''Constraint Error: duplicate key in schema_log'')
        else Inr (fs(p \<mapsto> DBFile (d\<lparr>schema_log := schema_log d @ [(now env, raw)]\<rparr>))))"

definition createTable ::
  "env \<Rightarrow> Log \<Rightarrow> string \<Rightarrow> filesystem \<Rightarrow> (int \<times> error option) \<times> Log \<times> filesystem" where
  "createTable env l rawCreateTable fs =
     (case getDB env l fs of
        (Inl e, l1, fs1) \<Rightarrow> ((- 1, Some e), l1, fs1)
      | (Inr p, l1, fs1) \<Rightarrow>
          (case insert_schema_row env p rawCreateTable fs1 of
             Inl e \<Rightarrow> ((- 1, Some (Wrap ''failed to log table creation'' e)), l1, fs1)
           | Inr fs2 \<Rightarrow> ((0, None), l1, fs2)))"

subsection \<open>\<^verbatim>\<open>RecreateSchema\<close>\<close>

text \<open>
  \<^verbatim>\<open>SELECT raw_query FROM schema_log ORDER BY timestamp ASC\<close>: the queries, sorted by
  their timestamps.
\<close>

definition schema_queries :: "logdb \<Rightarrow> string list" where
  "schema_queries d = map snd (sort_key fst (schema_log d))"

text \<open>
  The loop \<^verbatim>\<open>for rows.Next()\<close> over the rows: row \<open>i\<close> is scanned, then executed in
  the transaction. The first failure of a scan or of an execution ends the loop and is
  returned. When \<^verbatim>\<open>rows.Next()\<close> itself fails it returns false: the loop ends like at
  the end of the rows, and since the source never reads \<^verbatim>\<open>rows.Err()\<close> the function
  returns nil.
\<close>

fun play :: "env \<Rightarrow> engine \<Rightarrow> nat \<Rightarrow> string list \<Rightarrow> tx \<Rightarrow> error option \<times> tx" where
  "play env eng i [] t = (None, t)"
| "play env eng i (createQuery # rest) t =
     (case fails env (CallNext i) of
        Some e \<Rightarrow> (None, t)
      | None \<Rightarrow>
          (case fails env (CallScan i) of
             Some e \<Rightarrow> (Some (Wrap ''failed to scan schema_log row'' e), t)
           | None \<Rightarrow>
               (case tx_Exec eng createQuery t of
                  Inl e \<Rightarrow> (Some (Wrap ''failed to execute schema_log query'' e), t)
                | Inr t' \<Rightarrow> play env eng (Suc i) rest t')))"

definition RecreateSchema ::
  "env \<Rightarrow> engine \<Rightarrow> Log \<Rightarrow> tx \<Rightarrow> filesystem \<Rightarrow> error option \<times> Log \<times> tx \<times> filesystem" where
  "RecreateSchema env eng l t fs =
     (case getDB env l fs of
        (Inl e, l1, fs1) \<Rightarrow> (Some (Wrap ''failed to get log database'' e), l1, t, fs1)
      | (Inr p, l1, fs1) \<Rightarrow>
          (case fails env CallQuerySchema of
             Some e \<Rightarrow> (Some (Wrap ''failed to query schema_log'' e), l1, t, fs1)
           | None \<Rightarrow>
               (case play env eng 0 (schema_queries (read_db p fs1)) t of
                  (r, t') \<Rightarrow> (r, l1, t', fs1))))"

subsection \<open>\<^verbatim>\<open>RecreateAsView\<close>\<close>

text \<open>
  The same query and the same loop body as in \<^verbatim>\<open>RecreateSchema\<close>, followed by
  \<^verbatim>\<open>break\<close>: only the first row is scanned and executed. \<^verbatim>\<open>insert_log\<close> is not read.
\<close>

definition play_first :: "env \<Rightarrow> engine \<Rightarrow> string list \<Rightarrow> tx \<Rightarrow> error option \<times> tx" where
  "play_first env eng rows t =
     (case rows of
        [] \<Rightarrow> (None, t)
      | createQuery # rest \<Rightarrow>
          (case fails env (CallNext 0) of
             Some e \<Rightarrow> (None, t)
           | None \<Rightarrow>
               (case fails env (CallScan 0) of
                  Some e \<Rightarrow> (Some (Wrap ''failed to scan schema_log row'' e), t)
                | None \<Rightarrow>
                    (case tx_Exec eng createQuery t of
                       Inl e \<Rightarrow> (Some (Wrap ''failed to execute schema_log query'' e), t)
                     | Inr t' \<Rightarrow> (None, t')))))"

definition RecreateAsView ::
  "env \<Rightarrow> engine \<Rightarrow> Log \<Rightarrow> tx \<Rightarrow> filesystem \<Rightarrow> error option \<times> Log \<times> tx \<times> filesystem" where
  "RecreateAsView env eng l t fs =
     (case getDB env l fs of
        (Inl e, l1, fs1) \<Rightarrow> (Some (Wrap ''failed to get log database'' e), l1, t, fs1)
      | (Inr p, l1, fs1) \<Rightarrow>
          (case fails env CallQuerySchema of
             Some e \<Rightarrow> (Some (Wrap ''failed to query schema_log'' e), l1, t, fs1)
           | None \<Rightarrow>
               (case play_first env eng (schema_queries (read_db p fs1)) t of
                  (r, t') \<Rightarrow> (r, l1, t', fs1))))"

subsection \<open>\<^verbatim>\<open>Insert\<close>\<close>

text \<open>
  \<^verbatim>\<open>INSERT INTO insert_log (id, partition) VALUES (uuidv7(), '') RETURNING id\<close>, run
  on the connection of the log database outside any transaction, so committed at
  once. The identifier is the primary key. The other columns take their defaults.
\<close>

definition insert_log_row :: "env \<Rightarrow> string \<Rightarrow> filesystem \<Rightarrow> error + byte list \<times> filesystem" where
  "insert_log_row env p fs =
     guarded (fails env CallInsertLog)
       (let d = read_db p fs in
        if uuidv7 env \<in> row_id ` set (insert_log d)
        then Inl (E ''Constraint Error: duplicate key in insert_log'')
        else Inr (uuidv7 env,
                  fs(p \<mapsto> DBFile (d\<lparr>insert_log := insert_log d @
                        [\<lparr>row_id = uuidv7 env, row_partition = [],
                          tombstoned_unix_time = 0, row_size = 0\<rparr>]\<rparr>))))"

text \<open>\<^verbatim>\<open>UPDATE insert_log SET size = ? WHERE id = ?\<close>, with the text of the identifier.\<close>

definition update_size :: "env \<Rightarrow> string \<Rightarrow> int \<Rightarrow> string \<Rightarrow> filesystem \<Rightarrow> error + filesystem" where
  "update_size env p sz uuidStr fs =
     guarded (fails env CallUpdateSize)
       (let d = read_db p fs in
        Inr (fs(p \<mapsto> DBFile (d\<lparr>insert_log :=
               map (\<lambda>r. if UUID_String (row_id r) = uuidStr then r\<lparr>row_size := sz\<rparr> else r)
                 (insert_log d)\<rparr>))))"

definition copy_query :: "string \<Rightarrow> string \<Rightarrow> string" where
  "copy_query table parquetPath =
     [CHR 0x0A, CHR 0x09, CHR 0x09] @ ''COPY '' @ table @ '' TO '' @ [CHR 0x27] @ parquetPath @
     [CHR 0x27] @ '' (FORMAT PARQUET);'' @ [CHR 0x0A, CHR 0x09]"

definition parquet_path :: "string \<Rightarrow> string \<Rightarrow> string" where
  "parquet_path table uuidStr = Join [Join [''storage'', table, ''data''], uuidStr @ ''.parquet'']"

text \<open>
  The steps of \<^verbatim>\<open>Insert\<close> after the row is in \<^verbatim>\<open>insert_log\<close> (log.go, lines 157 to
  194): the data directory, the \<^verbatim>\<open>COPY\<close> in the transaction, which writes the file,
  the stat of the file, the update of the size.
\<close>

definition write_parquet ::
  "env \<Rightarrow> engine \<Rightarrow> string \<Rightarrow> string \<Rightarrow> string \<Rightarrow> tx \<Rightarrow> filesystem
   \<Rightarrow> (int \<times> error option) \<times> tx \<times> filesystem" where
  "write_parquet env eng p table uuidStr t fs =
     (let dataDir = Join [''storage'', table, ''data''] in
      case guarded (fails env (CallMkdirAll dataDir)) (MkdirAll dataDir fs) of
        Inl e \<Rightarrow> ((- 1, Some (Wrap ''failed to create data directory'' e)), t, fs)
      | Inr fs1 \<Rightarrow>
          (let parquetPath = Join [dataDir, uuidStr @ ''.parquet''];
               copyQuery = copy_query table parquetPath in
           case tx_Exec eng copyQuery t of
             Inl e \<Rightarrow>
               ((- 1, Some (WrapQ ''failed to copy to parquet with query'' copyQuery e)), t, fs1)
           | Inr t1 \<Rightarrow>
               (let fs2 = fs1(parquetPath \<mapsto> File (copy_bytes eng t copyQuery)) in
                case guarded (fails env (CallStat parquetPath)) (os_Stat parquetPath fs2) of
                  Inl e \<Rightarrow> ((- 1, Some (Wrap ''failed to get parquet file size'' e)), t1, fs2)
                | Inr fileInfo \<Rightarrow>
                    (case update_size env p (fi_size fileInfo) uuidStr fs2 of
                       Inl e \<Rightarrow>
                         ((- 1, Some (Wrap ''failed to update insert_log size'' e)), t1, fs2)
                     | Inr fs3 \<Rightarrow> ((0, None), t1, fs3)))))"

text \<open>
  \<^verbatim>\<open>Insert\<close>. The conversion \<^verbatim>\<open>uuid.UUID(uuidBytes)\<close> panics on a slice of fewer
  than 16 bytes. The third parameter of the source, \<^verbatim>\<open>query\<close>, is not used by it and
  is left out. The result is the pair that the source returns, \<^verbatim>\<open>-1\<close> with the error
  or \<^verbatim>\<open>0\<close> with none, with the handle, the transaction and the files as the call
  leaves them.
\<close>

definition Insert ::
  "env \<Rightarrow> engine \<Rightarrow> Log \<Rightarrow> string \<Rightarrow> tx \<Rightarrow> filesystem
   \<Rightarrow> (int \<times> error option) \<times> Log \<times> tx \<times> filesystem" where
  "Insert env eng l table t fs =
     (case getDB env l fs of
        (Inl e, l1, fs1) \<Rightarrow> ((- 1, Some (Wrap ''failed to get log database'' e)), l1, t, fs1)
      | (Inr p, l1, fs1) \<Rightarrow>
          (case insert_log_row env p fs1 of
             Inl e \<Rightarrow> ((- 1, Some (Wrap ''failed to insert into insert_log'' e)), l1, t, fs1)
           | Inr (uuidBytes, fs2) \<Rightarrow>
               (case UUID_of_slice uuidBytes of
                  Inl e \<Rightarrow> ((- 1, Some e), l1, t, fs2)
                | Inr u \<Rightarrow>
                    (case write_parquet env eng p table (UUID_String u) t fs2 of
                       (r, t', fs3) \<Rightarrow> (r, l1, t', fs3)))))"

section \<open>The dispatcher over the log store\<close>

text \<open>
  The state outside icebase.go when the dispatcher runs over log.go: the files, the map
  \<^verbatim>\<open>ib.logs\<close> from table names to \<^verbatim>\<open>Log\<close> handles, and the transaction on the
  in-memory database, which holds no tables between two statements.
\<close>

record state =
  files :: filesystem
  logs :: "string \<rightharpoonup> Log"
  trans :: tx

text \<open>
  \<^verbatim>\<open>logByName\<close> (icebase.go, lines 198 to 207): the handle in the map, or a new one
  made by \<^verbatim>\<open>NewLog(ib.storageDir, tableName)\<close> and put into the map. No function of
  that name with two parameters is among the sources (\<^verbatim>\<open>NewLog\<close> of log.go takes the
  table name only), so the constructor that is called is the parameter \<open>new_log\<close>.
\<close>

definition logByName ::
  "(string \<Rightarrow> string \<Rightarrow> Log) \<Rightarrow> IceBase \<Rightarrow> string \<Rightarrow> state \<Rightarrow> Log \<times> state" where
  "logByName new_log ib table s =
     (case logs s table of
        Some l \<Rightarrow> (l, s)
      | None \<Rightarrow>
          (new_log (ib_storageDir ib) table,
           s\<lparr>logs := (logs s)(table \<mapsto> new_log (ib_storageDir ib) table)\<rparr>))"

text \<open>
  A method of the handle of a table, run on the state: the handle is a pointer, so what
  the method does to it stays in the map.
\<close>

definition with_log ::
  "(string \<Rightarrow> string \<Rightarrow> Log) \<Rightarrow> IceBase \<Rightarrow> string \<Rightarrow>
   (Log \<Rightarrow> tx \<Rightarrow> filesystem \<Rightarrow> error option \<times> Log \<times> tx \<times> filesystem) \<Rightarrow> state
   \<Rightarrow> error option \<times> state" where
  "with_log new_log ib table f s =
     (case logByName new_log ib table s of
        (l, s1) \<Rightarrow>
          (case f l (trans s1) (files s1) of
             (r, l', t', fs') \<Rightarrow>
               (r, s1\<lparr>files := fs', logs := (logs s1)(table \<mapsto> l'), trans := t'\<rparr>)))"

text \<open>
  \<^verbatim>\<open>dataTx.Query(query)\<close>: a statement that the engine answers joins the transaction.
\<close>

definition tx_Query :: "engine \<Rightarrow> string \<Rightarrow> state \<Rightarrow> (nat \<times> query_result) \<times> state" where
  "tx_Query eng query s =
     (case answer eng (trans s) query of
        (elapsed, QErr txt) \<Rightarrow> ((elapsed, QErr txt), s)
      | (elapsed, qr) \<Rightarrow> ((elapsed, qr), s\<lparr>trans := trans s @ [query]\<rparr>))"

text \<open>
  The calls of \<^verbatim>\<open>handleQuery\<close> bound to log.go. The dispatcher names the methods
  \<^verbatim>\<open>CreateViewOfParquet\<close>, \<^verbatim>\<open>PlaySchemaLogForward\<close> and \<^verbatim>\<open>logDDL\<close>; log.go has
  them as \<^verbatim>\<open>RecreateAsView\<close>, \<^verbatim>\<open>RecreateSchema\<close> and \<^verbatim>\<open>createTable\<close>. The parser,
  \<^verbatim>\<open>Merge\<close> and the constructor of the handles are not among the sources and stay
  parameters.
\<close>

definition icebase_deps ::
  "env \<Rightarrow> engine \<Rightarrow> (string \<Rightarrow> Operation \<times> string) \<Rightarrow> (Operation \<Rightarrow> string) \<Rightarrow>
   (string \<Rightarrow> state \<Rightarrow> error option \<times> state) \<Rightarrow> (string \<Rightarrow> string \<Rightarrow> Log) \<Rightarrow> IceBase \<Rightarrow>
   state deps" where
  "icebase_deps env eng parse op_string merge new_log ib =
     \<lparr>Begin = (\<lambda>s. case fails env CallBegin of
                      Some e \<Rightarrow> (Some e, s)
                    | None \<Rightarrow> (None, s\<lparr>trans := []\<rparr>)),
      Rollback = (\<lambda>s. s\<lparr>trans := []\<rparr>),
      Parse = parse,
      OpString = op_string,
      CreateViewOfParquet = (\<lambda>table. with_log new_log ib table (RecreateAsView env eng)),
      PlaySchemaLogForward = (\<lambda>table. with_log new_log ib table (RecreateSchema env eng)),
      Merge = merge,
      Query = tx_Query eng,
      logDDL = (\<lambda>table query. with_log new_log ib table
                  (\<lambda>l t fs. case createTable env l query fs of
                               ((rc, e), l', fs') \<Rightarrow> (e, l', t, fs'))),
      LogInsert = (\<lambda>table. with_log new_log ib table
                  (\<lambda>l t fs. case Insert env eng l table t fs of
                               ((rc, e), l', t', fs') \<Rightarrow> (e, l', t', fs')))\<rparr>"

subsection \<open>Notions used to state the properties of the log store\<close>

text \<open>The path at which \<^verbatim>\<open>getDB\<close> opens the log database of a table.\<close>

definition log_db_path :: "string \<Rightarrow> string" where
  "log_db_path table = Join [Join [''storage'', table, ''log''], ''log.db'']"

text \<open>A handle as \<^verbatim>\<open>NewLog\<close> makes it or as \<^verbatim>\<open>getDB\<close> leaves it.\<close>

definition fresh_or_open :: "Log \<Rightarrow> bool" where
  "fresh_or_open l \<longleftrightarrow> db l = None \<or> db l = Some (log_db_path (tableName l))"

text \<open>
  The rows of \<^verbatim>\<open>insert_log\<close> in the database at a path, and among them the live rows
  whose parquet file is not on disk.
\<close>

definition insert_rows :: "string \<Rightarrow> filesystem \<Rightarrow> insert_row list" where
  "insert_rows p fs = insert_log (read_db p fs)"

definition has_file :: "string \<Rightarrow> filesystem \<Rightarrow> bool" where
  "has_file path fs = (case fs path of Some (File bs) \<Rightarrow> True | _ \<Rightarrow> False)"

definition orphan_rows :: "string \<Rightarrow> filesystem \<Rightarrow> insert_row list" where
  "orphan_rows table fs =
     filter (\<lambda>r. tombstoned_unix_time r = 0 \<and>
                 \<not> has_file (parquet_path table (UUID_String (row_id r))) fs)
       (insert_rows (log_db_path table) fs)"

text \<open>The row that the \<^verbatim>\<open>INSERT\<close> of \<^verbatim>\<open>Insert\<close> adds.\<close>

definition new_row :: "env \<Rightarrow> insert_row" where
  "new_row env =
     \<lparr>row_id = uuidv7 env, row_partition = [], tombstoned_unix_time = 0, row_size = 0\<rparr>"

section \<open>Example inputs\<close>

text \<open>
  Inputs on which the definitions are run: an identifier, an environment in which no
  call fails, a stand-in for the parser on the example statements, two engines, and the
  state of a process that starts on an empty directory. The first engine answers
  \<^verbatim>\<open>empty query\<close> to an empty statement, rejects the statement \<^verbatim>\<open>SELEC\<close>, answers
  one row to \<^verbatim>\<open>SELECT 1\<close> and no row to anything else; the second differs in that
  every \<^verbatim>\<open>Exec\<close> fails, as on a full disk.
\<close>

definition uuid0 :: "byte list" where
  "uuid0 = [0x01, 0x93, 0xab, 0xcd, 0xef, 0x01, 0x72, 0x34,
            0x85, 0x67, 0x89, 0xab, 0xcd, 0xef, 0x01, 0x23]"

definition env0 :: env where
  "env0 = \<lparr>fails = (\<lambda>c. None), uuidv7 = uuid0, now = 1000\<rparr>"

definition parse0 :: "string \<Rightarrow> Operation \<times> string" where
  "parse0 q =
     (if HasPrefix q ''CREATE TABLE t '' then (OpCreateTable, ''t'')
      else if HasPrefix q ''INSERT INTO t '' then (OpInsert, ''t'')
      else if q = ''SELECT * FROM t'' then (OpSelect, ''t'')
      else (OpOther, []))"

definition op_string0 :: "Operation \<Rightarrow> string" where
  "op_string0 op =
     (case op of OpCreateTable \<Rightarrow> ''CREATE_TABLE'' | OpInsert \<Rightarrow> ''INSERT''
      | OpSelect \<Rightarrow> ''SELECT'' | OpVacuum \<Rightarrow> ''VACUUM'' | OpOther \<Rightarrow> ''OTHER'')"

definition answer0 :: "tx \<Rightarrow> string \<Rightarrow> nat \<times> query_result" where
  "answer0 t q =
     (if q = [] then (1, QErr ''empty query'')
      else if q = ''SELEC'' then (2, QErr ''Parser Error: syntax error at or near SELEC'')
      else if q = ''SELECT 1'' then (3, QRows (Inr [''1'']) (Inr [''INTEGER'']) [Row [VInt 1]])
      else (4, QRows (Inr [''Count'']) (Inr [''BIGINT'']) []))"

definition engine0 :: engine where
  "engine0 = \<lparr>rejects = (\<lambda>t q. None), copy_bytes = (\<lambda>t q. [0x50, 0x41, 0x52, 0x31]),
               answer = answer0\<rparr>"


definition no_merge :: "string \<Rightarrow> state \<Rightarrow> error option \<times> state" where
  "no_merge table s = (None, s)"

text \<open>
  The constructor of the handles in the examples: \<^verbatim>\<open>NewLog\<close> of log.go, which has no
  place for the storage directory.
\<close>

definition new_log0 :: "string \<Rightarrow> string \<Rightarrow> Log" where
  "new_log0 dir table = NewLog table"

definition deps0 :: "state deps" where
  "deps0 = icebase_deps env0 engine0 parse0 op_string0 no_merge new_log0 (NewIceBase [])"


definition state0 :: state where
  "state0 = \<lparr>files = Map.empty, logs = Map.empty, trans = []\<rparr>"

text \<open>
  The files of a table \<^verbatim>\<open>t\<close> with two rows in \<^verbatim>\<open>schema_log\<close>, the later one
  inserted first, and one live data file; and the state of a process that starts on them.
\<close>

definition fs_two_ddl :: filesystem where
  "fs_two_ddl =
     [''storage'' \<mapsto> Directory, ''storage/t'' \<mapsto> Directory,
      ''storage/t/log'' \<mapsto> Directory, ''storage/t/data'' \<mapsto> Directory,
      ''storage/t/log/log.db'' \<mapsto>
        DBFile \<lparr>schema_log = [(20, ''CREATE TABLE u (x INT)''),
                              (10, ''CREATE TABLE t (id BIGINT)'')],
                insert_log = [\<lparr>row_id = uuid0, row_partition = [], tombstoned_unix_time = 0,
                                row_size = 4\<rparr>]\<rparr>,
      ''storage/t/data/0193abcd-ef01-7234-8567-89abcdef0123.parquet'' \<mapsto>
        File [0x50, 0x41, 0x52, 0x31]]"

definition state_two_ddl :: state where
  "state_two_ddl = \<lparr>files = fs_two_ddl, logs = Map.empty, trans = []\<rparr>"

text \<open>
  A second identifier and an environment that generates it; the transaction of an
  \<^verbatim>\<open>INSERT\<close> into the table \<^verbatim>\<open>t\<close> after the replay of its schema; and an
  environment in which \<^verbatim>\<open>rows.Next()\<close> fails where it would deliver the second row.
\<close>

definition uuid1 :: "byte list" where
  "uuid1 = [0x01, 0x93, 0xab, 0xcd, 0xef, 0x02, 0x7a, 0xbc,
            0x9d, 0xef, 0x00, 0x11, 0x22, 0x33, 0x44, 0x55]"

definition env1 :: env where
  "env1 = env0\<lparr>uuidv7 := uuid1\<rparr>"

definition tx_insert :: tx where
  "tx_insert = [''CREATE TABLE t (id BIGINT)'', ''CREATE TABLE u (x INT)'',
                ''INSERT INTO t VALUES (1)'']"

definition cut_after_first :: faults where
  "cut_after_first c = (if c = CallNext 1 then Some (E ''driver: bad connection'') else None)"

definition env_cut :: env where
  "env_cut = env0\<lparr>fails := cut_after_first\<rparr>"

text \<open>
  For the storage backend: no fault at all, the fault of a file \<^verbatim>\<open>root/a\<close> that
  cannot be opened for writing, a directory \<^verbatim>\<open>root\<close> with the file \<^verbatim>\<open>a\<close> of two
  bytes, and the fault of a disk that is full after one byte of \<^verbatim>\<open>root/a\<close>.
\<close>

definition no_faults :: faults where
  "no_faults c = None"

definition read_only_a :: faults where
  "read_only_a c =
     (if c = CallWriteFile ''root/a'' then Some (E ''open root/a: permission denied'') else None)"

definition fs_root_a :: filesystem where
  "fs_root_a = [''root'' \<mapsto> Directory, ''root/a'' \<mapsto> File [1, 2]]"

definition full_disk_a :: faults where
  "full_disk_a c =
     (if c = CallWrite ''root/a'' 1 then Some (E ''write root/a: no space left on device'')
      else None)"

section \<open>Properties of the response cells\<close>

lemma digit_char_hex: "d < 16 \<Longrightarrow> digit_char d \<in> set ''0123456789abcdef''"
proof -
  assume "d < 16"
  then have "d = 0 \<or> d = 1 \<or> d = 2 \<or> d = 3 \<or> d = 4 \<or> d = 5 \<or> d = 6 \<or> d = 7 \<or> d = 8 \<or>
    d = 9 \<or> d = 10 \<or> d = 11 \<or> d = 12 \<or> d = 13 \<or> d = 14 \<or> d = 15" by arith
  then show ?thesis unfolding digit_char_def by (elim disjE) simp_all
qed

lemma hex_byte_set: "set (hex_byte b) \<subseteq> set ''0123456789abcdef''"
proof -
  have "unat b < 256" using unsigned_less [of b, where ?'a = nat] by simp
  then have "unat b div 16 < 16" by simp
  moreover have "unat b mod 16 < 16" by simp
  ultimately show ?thesis
    unfolding hex_byte_def using digit_char_hex by (metis (no_types, lifting) empty_set empty_subsetI insert_subset list.simps(15))
qed

lemma hex_encode_set: "set (hex_encode bs) \<subseteq> set ''0123456789abcdef''"
  unfolding hex_encode_def using hex_byte_set by (induction bs) auto

lemma hex_encode_len: "length (hex_encode bs) = 2 * length bs"
  by (induction bs) (simp_all add: hex_encode_def hex_byte_def)

lemma UUID_String_canonical:
  assumes "length u = 16"
  shows "canonical_uuid (UUID_String u)"
proof -
  define a where "a = hex_encode (take 4 u)"
  define b where "b = hex_encode (take 2 (drop 4 u))"
  define c where "c = hex_encode (take 2 (drop 6 u))"
  define d where "d = hex_encode (take 2 (drop 8 u))"
  define e where "e = hex_encode (take 6 (drop 10 u))"
  have len: "length a = 8" "length b = 4" "length c = 4" "length d = 4" "length e = 12"
    using assms by (simp_all add: a_def b_def c_def d_def e_def hex_encode_len)
  have hx: "set a \<subseteq> set ''0123456789abcdef''" "set b \<subseteq> set ''0123456789abcdef''"
    "set c \<subseteq> set ''0123456789abcdef''" "set d \<subseteq> set ''0123456789abcdef''"
    "set e \<subseteq> set ''0123456789abcdef''"
    unfolding a_def b_def c_def d_def e_def by (rule hex_encode_set)+
  have eq: "UUID_String u = a @ ''-'' @ b @ ''-'' @ c @ ''-'' @ d @ ''-'' @ e"
    by (simp add: UUID_String_def a_def b_def c_def d_def e_def)
  have nth: "\<And>i. i < 36 \<Longrightarrow> (a @ ''-'' @ b @ ''-'' @ c @ ''-'' @ d @ ''-'' @ e) ! i =
      (if i < 8 then a ! i else if i = 8 then CHR ''-'' else if i < 13 then b ! (i - 9)
       else if i = 13 then CHR ''-'' else if i < 18 then c ! (i - 14)
       else if i = 18 then CHR ''-'' else if i < 23 then d ! (i - 19)
       else if i = 23 then CHR ''-'' else e ! (i - 24))"
    using len by (auto simp: nth_append nth_Cons')
  show ?thesis
    unfolding canonical_uuid_def eq
  proof (intro conjI allI impI)
    show "length (a @ ''-'' @ b @ ''-'' @ c @ ''-'' @ d @ ''-'' @ e) = 36" using len by simp
  next
    fix i :: nat assume i: "i < 36"
    have A: "\<And>xs j. set xs \<subseteq> set ''0123456789abcdef'' \<Longrightarrow> j < length xs \<Longrightarrow> xs ! j \<in> set ''0123456789abcdef''"
      using nth_mem by blast
    show "if i \<in> {8, 13, 18, 23} then (a @ ''-'' @ b @ ''-'' @ c @ ''-'' @ d @ ''-'' @ e) ! i = CHR ''-''
          else (a @ ''-'' @ b @ ''-'' @ c @ ''-'' @ d @ ''-'' @ e) ! i \<in> set ''0123456789abcdef''"
      unfolding nth [OF i]
      using i len A [OF hx(1), of i] A [OF hx(2), of "i - 9"] A [OF hx(3), of "i - 14"] A [OF hx(4), of "i - 19"] A [OF hx(5), of "i - 24"]
      by (auto split: if_splits)
  qed
qed


lemma row_cells_nth:
  "row_cells tys vs = Inr cs \<Longrightarrow>
     length cs = length vs \<and> (\<forall>i < length vs. cell (tys ! i) (vs ! i) = Inr (cs ! i))"
proof (induction tys vs arbitrary: cs rule: row_cells.induct)
  case (1 tys)
  then show ?case by simp
next
  case (2 v vs)
  then show ?case by simp
next
  case (3 ty tys v vs)
  from "3.prems" obtain c cs' where c: "cell ty v = Inr c" and cs': "row_cells tys vs = Inr cs'"
    and cs: "cs = c # cs'"
    by (auto split: sum.splits)
  from "3.IH" [OF c cs'] have ih: "length cs' = length vs"
    "\<forall>i < length vs. cell (tys ! i) (vs ! i) = Inr (cs' ! i)" by simp_all
  show ?case
  proof (intro conjI allI impI)
    show "length cs = length (v # vs)" using ih cs by simp
  next
    fix i assume "i < length (v # vs)"
    then show "cell ((ty # tys) ! i) ((v # vs) ! i) = Inr (cs ! i)"
      using ih c cs by (cases i) simp_all
  qed
qed

lemma scan_rows_nth:
  "scan_rows n tys rws d = Inr d' \<Longrightarrow>
     \<exists>css. length css \<le> length rws \<and>
           d' = (if css = [] then d else Some (rows_so_far d @ css)) \<and>
           (\<forall>r < length css. \<exists>vs. rws ! r = Row vs \<and> length vs = n \<and>
                                  row_cells tys vs = Inr (css ! r))"
proof (induction rws arbitrary: d)
  case Nil
  then show ?case by simp
next
  case (Cons rw rws)
  show ?case
  proof (cases rw)
    case (NextFails e)
    with Cons.prems have "d' = d" by simp
    then show ?thesis by (intro exI [of _ "[]"]) simp
  next
    case (ScanFails e)
    with Cons.prems show ?thesis by (simp add: Scan_def)
  next
    case (Row vs)
    with Cons.prems obtain cs where vs: "length vs = n"
      and cs: "row_cells tys vs = Inr cs"
      and rest: "scan_rows n tys rws (append_row d cs) = Inr d'"
      by (auto simp: Scan_def split: sum.splits if_splits)
    from Cons.IH [OF rest] obtain css where css: "length css \<le> length rws"
      "d' = (if css = [] then append_row d cs else Some (rows_so_far (append_row d cs) @ css))"
      "\<forall>r < length css. \<exists>vs. rws ! r = Row vs \<and> length vs = n \<and>
                              row_cells tys vs = Inr (css ! r)"
      by blast
    have app: "append_row d cs = Some (rows_so_far d @ [cs])"
      by (simp add: append_row_def rows_so_far_def split: option.splits)
    show ?thesis
    proof (intro exI [of _ "cs # css"] conjI allI impI)
      show "length (cs # css) \<le> length (rw # rws)" using css by simp
    next
      show "d' = (if cs # css = [] then d else Some (rows_so_far d @ cs # css))"
        using css(2) app by (auto simp: rows_so_far_def)
    next
      fix r assume "r < length (cs # css)"
      then show "\<exists>vs. (rw # rws) ! r = Row vs \<and> length vs = n \<and>
                      row_cells tys vs = Inr ((cs # css) ! r)"
        using Row vs cs css(3) by (cases r) auto
    qed
  qed
qed

text \<open>
  C9, as the code has it. In a response that \<^verbatim>\<open>ExecuteQuery\<close> returns, every cell
  comes from the value scanned at its row and column: it is the string \<^verbatim>\<open>NULL\<close> when
  the value is nil; when the column type is \<^verbatim>\<open>UUID\<close> and the value is a byte slice,
  the slice has at least 16 bytes and the cell is the canonical hyphenated text of the
  first 16; in every other case, also for a value of a \<^verbatim>\<open>UUID\<close> column that is not a
  byte slice, it is the text that \<^verbatim>\<open>fmt.Sprintf("%v", v)\<close> prints for the value.
\<close>

theorem cells_of_response:
  assumes ok: "ExecuteQuery el (QRows (Inr cols) (Inr tys) rws) = Inr resp"
    and d: "Data resp = Some d" and r: "r < length d" and c: "c < length cols"
  shows "\<exists>vs. r < length rws \<and> rws ! r = Row vs \<and> length vs = length cols \<and>
           length (d ! r) = length cols \<and>
           (vs ! c = VNil \<longrightarrow> d ! r ! c = ''NULL'') \<and>
           (\<forall>b. vs ! c = VBytes b \<and> tys ! c = ''UUID'' \<longrightarrow>
                16 \<le> length b \<and> d ! r ! c = UUID_String (take 16 b) \<and>
                canonical_uuid (d ! r ! c)) \<and>
           (vs ! c \<noteq> VNil \<and> (tys ! c = ''UUID'' \<longrightarrow> (\<forall>b. vs ! c \<noteq> VBytes b)) \<longrightarrow>
                d ! r ! c = Sprintf_v (vs ! c))"
proof -
  from ok have len: "length cols \<le> length tys"
    by (auto simp: ExecuteQuery_def split: if_splits)
  from ok len obtain data where
    sc: "scan_rows (length cols) (map snd (zip cols tys)) rws None = Inr data"
    and data: "Data resp = data"
    by (auto simp: ExecuteQuery_def Let_def split: sum.splits)
  from scan_rows_nth [OF sc] obtain css where h: "length css \<le> length rws"
    "data = (if css = [] then None else Some (rows_so_far None @ css))"
    "\<forall>r < length css. \<exists>vs. rws ! r = Row vs \<and> length vs = length cols \<and>
        row_cells (map snd (zip cols tys)) vs = Inr (css ! r)"
    by blast
  from h(2) data d have dcss: "d = css"
    by (auto simp: rows_so_far_def split: if_splits)
  from h(3) r dcss obtain vs where row: "rws ! r = Row vs" and vs: "length vs = length cols"
    and rc: "row_cells (map snd (zip cols tys)) vs = Inr (d ! r)" by auto
  from row_cells_nth [OF rc] c vs have lc: "length (d ! r) = length vs"
    and cl: "cell (map snd (zip cols tys) ! c) (vs ! c) = Inr (d ! r ! c)" by auto
  have ty: "map snd (zip cols tys) ! c = tys ! c" using c len by simp
  have cl': "cell (tys ! c) (vs ! c) = Inr (d ! r ! c)" using cl ty by simp
  have uu: "vs ! c = VBytes b \<Longrightarrow> tys ! c = ''UUID'' \<Longrightarrow>
      16 \<le> length b \<and> d ! r ! c = UUID_String (take 16 b) \<and> canonical_uuid (d ! r ! c)" for b
  proof -
    assume a: "vs ! c = VBytes b" "tys ! c = ''UUID''"
    with cl' have l: "\<not> length b < 16" and e: "d ! r ! c = UUID_String (take 16 b)"
      by (auto simp: cell_def UUID_of_slice_def split: if_splits)
    from l have "length (take 16 b) = 16" by simp
    from UUID_String_canonical [OF this] e l show ?thesis by simp
  qed
  have nil: "vs ! c = VNil \<Longrightarrow> d ! r ! c = ''NULL''"
    using cl' by (simp add: cell_def)
  have other: "vs ! c \<noteq> VNil \<Longrightarrow> (tys ! c = ''UUID'' \<longrightarrow> (\<forall>b. vs ! c \<noteq> VBytes b)) \<Longrightarrow>
      d ! r ! c = Sprintf_v (vs ! c)"
    using cl' by (cases "vs ! c") (auto simp: cell_def split: if_splits)
  from h(1) r dcss have "r < length rws" by simp
  with row vs lc nil uu other show ?thesis
    by (intro exI [of _ vs]) auto
qed

theorem cells_of_response_witness:
  "ExecuteQuery 5 (QRows (Inr [''id'', ''n'']) (Inr [''UUID'', ''BIGINT''])
       [Row [VBytes [0x01, 0x93, 0xab, 0xcd, 0xef, 0x01, 0x72, 0x34,
                     0x85, 0x67, 0x89, 0xab, 0xcd, 0xef, 0x01, 0x23], VNil]])
     = Inr \<lparr>Meta = Some [(''id'', ''UUID''), (''n'', ''BIGINT'')],
            Data = Some [[''0193abcd-ef01-7234-8567-89abcdef0123'', ''NULL'']],
            Rows = 1, Elapsed = 5\<rparr>
   \<and> canonical_uuid ''0193abcd-ef01-7234-8567-89abcdef0123''"
proof -
  let ?u = "[0x01, 0x93, 0xab, 0xcd, 0xef, 0x01, 0x72, 0x34,
             0x85, 0x67, 0x89, 0xab, 0xcd, 0xef, 0x01, 0x23] :: byte list"
  let ?rws = "[Row [VBytes ?u, VNil]]"
  let ?d = "[[''0193abcd-ef01-7234-8567-89abcdef0123'', ''NULL'']]"
  let ?resp = "\<lparr>Meta = Some [(''id'', ''UUID''), (''n'', ''BIGINT'')],
            Data = Some ?d, Rows = 1, Elapsed = 5\<rparr>"
  have ok: "ExecuteQuery 5 (QRows (Inr [''id'', ''n'']) (Inr [''UUID'', ''BIGINT'']) ?rws) = Inr ?resp"
    by (simp add: ExecuteQuery_def Scan_def cell_def UUID_of_slice_def UUID_String_def
        hex_encode_def hex_byte_def digit_char_def append_row_def len_opt_def)
  have d: "Data ?resp = Some ?d" by simp
  have r: "(0::nat) < length ?d" by simp
  have c: "(0::nat) < length [''id'', ''n'']" by simp
  from cells_of_response [OF ok d r c]
  have "canonical_uuid ''0193abcd-ef01-7234-8567-89abcdef0123''"
    by auto
  with ok show ?thesis by simp
qed

text \<open>
  C9, as the claim has it, fails where the value of a \<^verbatim>\<open>UUID\<close> column is not a byte
  slice: the type assertion of the source does not hold and the cell is the \<^verbatim>\<open>%v\<close>
  text of the value. The text of a byte slice in another column is that of Go, the
  decimal bytes between brackets.
\<close>

theorem uuid_cell_counterexample:
  "ExecuteQuery 5 (QRows (Inr [''id'', ''b'']) (Inr [''UUID'', ''BLOB''])
       [Row [VString ''zz'', VBytes [1, 2, 3]]])
     = Inr \<lparr>Meta = Some [(''id'', ''UUID''), (''b'', ''BLOB'')],
            Data = Some [[''zz'', ''[1 2 3]'']], Rows = 1, Elapsed = 5\<rparr>
   \<and> \<not> canonical_uuid ''zz''"
  by (simp add: ExecuteQuery_def Scan_def cell_def append_row_def len_opt_def
      canonical_uuid_def show_nat.simps digit_char_def)

section \<open>Properties of the paths\<close>

lemma Split_not_Nil: "Split c s \<noteq> []"
  by (induction s) (auto split: list.splits)

lemma Split_no_sep: "c \<notin> set f \<Longrightarrow> Split c f = [f]"
  by (induction f) auto

lemma Split_append: "Split c (x @ c # y) = Split c x @ Split c y"
proof (induction x)
  case Nil
  then show ?case by simp
next
  case (Cons a x)
  obtain z zs where z: "Split c x = z # zs"
    using Split_not_Nil [of c x] by (cases "Split c x") auto
  with Cons show ?case by simp
qed

lemma intersperse_snoc:
  "intersperse sep (ys @ [f]) = (if ys = [] then f else intersperse sep ys @ sep @ f)"
  by (induction sep ys rule: intersperse.induct) auto

lemma last_Clean_snoc:
  assumes f: "f \<noteq> []" "CHR ''/'' \<notin> set f" "f \<noteq> ''.''" "f \<noteq> ''..''"
    and pre: "pre = [] \<or> (\<exists>x. pre = x @ ''/'')"
  shows "last (Clean (pre @ f)) = last f"
proof -
  define rooted where "rooted = (hd (pre @ f) = CHR ''/'')"
  have "\<exists>cs. Split CHR ''/'' (pre @ f) = cs @ [f]"
  proof (cases "pre = []")
    case True
    then show ?thesis using Split_no_sep [OF f(2)] by simp
  next
    case False
    with pre obtain x where "pre = x @ ''/''" by blast
    then have "Split CHR ''/'' (pre @ f) = Split CHR ''/'' x @ [f]"
      using Split_append [of "CHR ''/''" x f] Split_no_sep [OF f(2)] by simp
    then show ?thesis by blast
  qed
  then obtain cs where cs: "Split CHR ''/'' (pre @ f) = cs @ [f]" by blast
  define out where "out = foldl (clean_step rooted) [] cs"
  have "foldl (clean_step rooted) [] (cs @ [f]) = f # out"
    using f by (simp add: out_def)
  then have r: "rev (foldl (clean_step rooted) [] (Split CHR ''/'' (pre @ f))) = rev out @ [f]"
    using cs by simp
  obtain q where q: "intersperse ''/'' (rev out @ [f]) = q @ f"
    using intersperse_snoc [of "''/''" "rev out" f] by (cases "rev out = []") auto
  have ne: "pre @ f \<noteq> []" using f by simp
  have "Clean (pre @ f) = (if rooted then ''/'' else []) @ q @ f"
    using ne f(1) r q unfolding Clean_def Let_def rooted_def [symmetric] by simp
  then show ?thesis using f(1) by simp
qed

lemma last_Join2:
  assumes f: "f \<noteq> []" "CHR ''/'' \<notin> set f" "f \<noteq> ''.''" "f \<noteq> ''..''"
  shows "last (Join [d, f]) = last f"
proof (cases "d = []")
  case True
  with f(1) have "Join [d, f] = Clean ([] @ f)" by (simp add: Join_def)
  then show ?thesis using last_Clean_snoc [OF f, of "[]"] by simp
next
  case False
  then have "Join [d, f] = Clean ((d @ ''/'') @ f)" by (simp add: Join_def)
  then show ?thesis using last_Clean_snoc [OF f, of "d @ ''/''"] by auto
qed

lemma hex_encode_no_slash: "CHR ''/'' \<notin> set (hex_encode bs)"
proof
  assume "CHR ''/'' \<in> set (hex_encode bs)"
  then have "CHR ''/'' \<in> set ''0123456789abcdef''"
    using hex_encode_set [of bs] by blast
  then show False by simp
qed

lemma UUID_String_no_slash: "CHR ''/'' \<notin> set (UUID_String u)"
  unfolding UUID_String_def by (simp add: hex_encode_no_slash)

lemma log_db_path_last: "last (log_db_path table) = CHR ''b''"
proof -
  have "last (Join [Join [''storage'', table, ''log''], ''log.db'']) = last ''log.db''"
    by (rule last_Join2) simp_all
  then show ?thesis by (simp add: log_db_path_def)
qed

lemma parquet_path_last: "last (parquet_path table (UUID_String u)) = CHR ''t''"
proof -
  have "CHR ''/'' \<notin> set (UUID_String u)" by (rule UUID_String_no_slash)
  then have "last (Join [Join [''storage'', table, ''data''], UUID_String u @ ''.parquet''])
      = last (UUID_String u @ ''.parquet'')"
    by (intro last_Join2) auto
  then show ?thesis by (simp add: parquet_path_def)
qed

lemma paths_differ: "log_db_path tn \<noteq> parquet_path table (UUID_String u)"
  using log_db_path_last [of tn] parquet_path_last [of table u] by auto


section \<open>Properties of the log store\<close>









lemma getDB_path:
  "getDB env l fs = (Inr p, l', fs') \<Longrightarrow>
     db l' = Some p \<and> tableName l' = tableName l \<and>
     (fresh_or_open l \<longrightarrow> p = log_db_path (tableName l))"
  unfolding getDB_def Let_def fresh_or_open_def log_db_path_def
  by (auto split: option.splits sum.splits)

lemma insert_log_row_rows:
  "insert_log_row env p fs = Inr (u, fs') \<Longrightarrow>
     u = uuidv7 env \<and> insert_rows p fs' = insert_rows p fs @ [new_row env]"
  by (cases "fails env CallInsertLog")
     (auto simp: insert_log_row_def guarded_def Let_def insert_rows_def read_db_def new_row_def
           split: if_splits)






text \<open>
  The replay is complete when no call of \<^verbatim>\<open>rows.Next()\<close> fails: a success of
  \<^verbatim>\<open>RecreateSchema\<close> then means that the queries of all the rows of \<^verbatim>\<open>schema_log\<close>
  have been executed, each row once, in ascending order of the timestamps.
\<close>

lemma play_complete:
  assumes nx: "\<forall>k. fails env (CallNext k) = None"
  shows "play env eng i qs t = (None, t') \<Longrightarrow>
     t' = t @ qs \<and>
     (\<forall>k < length qs. fails env (CallScan (i + k)) = None \<and>
                        rejects eng (t @ take k qs) (qs ! k) = None)"
proof (induction qs arbitrary: i t)
  case Nil
  then show ?case by simp
next
  case (Cons q qs)
  from Cons.prems nx have sc: "fails env (CallScan i) = None" and ex: "rejects eng t q = None"
    and rest: "play env eng (Suc i) qs (t @ [q]) = (None, t')"
    by (auto simp: tx_Exec_def split: option.splits sum.splits)
  from Cons.IH [OF rest] have t': "t' = (t @ [q]) @ qs"
    and ih: "\<forall>k < length qs. fails env (CallScan (Suc i + k)) = None \<and>
                        rejects eng ((t @ [q]) @ take k qs) (qs ! k) = None"
    by simp_all
  show ?case
  proof (intro conjI allI impI)
    show "t' = t @ q # qs" using t' by simp
  next
    fix k assume "k < length (q # qs)"
    then show "fails env (CallScan (i + k)) = None" using sc ih by (cases k) auto
  next
    fix k assume "k < length (q # qs)"
    then show "rejects eng (t @ take k (q # qs)) ((q # qs) ! k) = None"
      using ex ih by (cases k) auto
  qed
qed

lemma RecreateSchema_complete:
  assumes ok: "RecreateSchema env eng l t fs = (None, l', t', fs')"
    and nx: "\<forall>k. fails env (CallNext k) = None"
  shows "\<exists>p rows.
           db l' = Some p \<and>
           mset rows = mset (schema_log (read_db p fs')) \<and>
           sorted (map fst rows) \<and>
           t' = t @ map snd rows \<and>
           (\<forall>k < length rows. rejects eng (t @ take k (map snd rows)) (snd (rows ! k)) = None)"
proof -
  obtain r l1 fs1 where g: "getDB env l fs = (r, l1, fs1)" by (cases "getDB env l fs") auto
  from ok g obtain p where r: "r = Inr p"
    by (cases r) (auto simp: RecreateSchema_def)
  from ok g r have q: "fails env CallQuerySchema = None"
    by (auto simp: RecreateSchema_def split: option.splits)
  from ok g r q have pl: "play env eng 0 (schema_queries (read_db p fs1)) t = (None, t')"
    and l': "l' = l1" and fs': "fs' = fs1"
    by (auto simp: RecreateSchema_def split: prod.splits)
  define rows where "rows = sort_key fst (schema_log (read_db p fs'))"
  have qs: "schema_queries (read_db p fs1) = map snd rows"
    by (simp add: schema_queries_def rows_def fs')
  from play_complete [OF nx pl] have t': "t' = t @ map snd rows"
    and acc: "\<forall>k < length rows. rejects eng (t @ take k (map snd rows)) (map snd rows ! k) = None"
    unfolding qs by simp_all
  have "db l' = Some p" using getDB_path [of env l fs p l1 fs1] g r l' by simp
  moreover have "mset rows = mset (schema_log (read_db p fs'))" by (simp add: rows_def)
  moreover have "sorted (map fst rows)" by (simp add: rows_def)
  moreover have "\<forall>k < length rows. rejects eng (t @ take k (map snd rows)) (snd (rows ! k)) = None"
    using acc by simp
  ultimately show ?thesis using t' by blast
qed

text \<open>
  C6. The loop of \<^verbatim>\<open>RecreateSchema\<close> ends when \<^verbatim>\<open>rows.Next()\<close> returns false, and
  the source never reads \<^verbatim>\<open>rows.Err()\<close>. On a log with two rows, when the driver
  fails where it would deliver the second row, \<^verbatim>\<open>RecreateSchema\<close> returns nil with
  only the first query executed: it succeeds and the transaction lacks a table
  definition of the log.
\<close>

theorem RecreateSchema_partial_replay:
  "schema_queries (read_db ''storage/t/log/log.db'' fs_two_ddl) =
     [''CREATE TABLE t (id BIGINT)'', ''CREATE TABLE u (x INT)''] \<and>
   fails env_cut (CallNext 1) = Some (E ''driver: bad connection'') \<and>
   fst (RecreateSchema env_cut engine0 (NewLog ''t'') [] fs_two_ddl) = None \<and>
   fst (snd (snd (RecreateSchema env_cut engine0 (NewLog ''t'') [] fs_two_ddl))) =
     [''CREATE TABLE t (id BIGINT)''] \<and>
   fst (RecreateSchema env0 engine0 (NewLog ''t'') [] fs_two_ddl) = None \<and>
   fst (snd (snd (RecreateSchema env0 engine0 (NewLog ''t'') [] fs_two_ddl))) =
     [''CREATE TABLE t (id BIGINT)'', ''CREATE TABLE u (x INT)'']"
  by code_simp

lemma getDB_opens_db:
  "getDB env (NewLog T) fs = (Inr p, l', fs') \<Longrightarrow>
     p = log_db_path T \<and> (\<exists>d. fs' p = Some (DBFile d))"
  unfolding getDB_def Let_def log_db_path_def NewLog_def attach_def guarded_def
  by (auto split: option.splits sum.splits node.splits)

text \<open>
  C3. The handle that \<^verbatim>\<open>NewLog\<close> of log.go makes for a table holds the table name and
  nothing else. \<^verbatim>\<open>getDB\<close> opens its log database at the path joined from the
  constant \<^verbatim>\<open>storage\<close>, the table name, \<^verbatim>\<open>log\<close> and \<^verbatim>\<open>log.db\<close>, and a successful
  \<^verbatim>\<open>Insert\<close> leaves the parquet file at the path joined from \<^verbatim>\<open>storage\<close>, the table
  name, \<^verbatim>\<open>data\<close> and the identifier: in every environment, with every engine and on
  every file system, so whatever storage directory is configured.
\<close>

theorem Log_paths_fixed_root:
  "(getDB env (NewLog T) fs = (Inr p, l', fs') \<longrightarrow>
      p = Join [Join [''storage'', T, ''log''], ''log.db''] \<and> (\<exists>d. fs' p = Some (DBFile d))) \<and>
   (Insert env eng (NewLog T) T t fs = ((0, None), l'', t', fs'') \<longrightarrow>
      has_file (Join [Join [''storage'', T, ''data''],
                      UUID_String (take 16 (uuidv7 env)) @ ''.parquet'']) fs'' \<and>
      (\<exists>d. fs'' (Join [Join [''storage'', T, ''log''], ''log.db'']) = Some (DBFile d)))"
proof (intro conjI impI)
  assume "getDB env (NewLog T) fs = (Inr p, l', fs')"
  from getDB_opens_db [OF this]
  have a: "p = log_db_path T" and b: "\<exists>d. fs' p = Some (DBFile d)" by blast+
  from a show "p = Join [Join [''storage'', T, ''log''], ''log.db'']"
    by (simp only: log_db_path_def)
  from b show "\<exists>d. fs' p = Some (DBFile d)" .
next
  assume ins: "Insert env eng (NewLog T) T t fs = ((0, None), l'', t', fs'')"
  obtain r l1 fs1 where g: "getDB env (NewLog T) fs = (r, l1, fs1)"
    by (cases "getDB env (NewLog T) fs") auto
  from ins g obtain q where r: "r = Inr q" by (cases r) (auto simp: Insert_def)
  from getDB_opens_db [of env T fs q l1 fs1] g r have q: "q = log_db_path T" by simp
  from ins g r obtain u fs2 where row: "insert_log_row env q fs1 = Inr (u, fs2)"
    by (cases "insert_log_row env q fs1") (auto simp: Insert_def)
  from insert_log_row_rows [OF row] have u: "u = uuidv7 env" by simp
  from ins g r row obtain u16 where conv: "UUID_of_slice u = Inr u16"
    by (cases "UUID_of_slice u") (auto simp: Insert_def)
  then have u16: "u16 = take 16 (uuidv7 env)"
    using u by (auto simp: UUID_of_slice_def split: if_splits)
  from ins g r row conv
  have w: "write_parquet env eng q T (UUID_String u16) t fs2 = ((0, None), t', fs'')"
    by (auto simp: Insert_def split: prod.splits)
  let ?pq = "Join [Join [''storage'', T, ''data''], UUID_String u16 @ ''.parquet'']"
  have ne: "q \<noteq> ?pq"
    using paths_differ [of T T u16] by (simp add: q parquet_path_def)
  from w obtain fsa bs sz where fin: "update_size env q sz (UUID_String u16) (fsa(?pq \<mapsto> File bs)) = Inr fs''"
    unfolding write_parquet_def Let_def by (auto split: sum.splits)
  then obtain d where fs'': "fs'' = (fsa(?pq \<mapsto> File bs))(q \<mapsto> DBFile d)"
    by (cases "fails env CallUpdateSize") (auto simp: update_size_def guarded_def Let_def)
  from fs'' ne
  show "has_file (Join [Join [''storage'', T, ''data''],
                        UUID_String (take 16 (uuidv7 env)) @ ''.parquet'']) fs''"
    by (simp add: has_file_def u16)
  from fs'' q
  show "\<exists>d. fs'' (Join [Join [''storage'', T, ''log''], ''log.db'']) = Some (DBFile d)"
    by (simp add: log_db_path_def)
qed

theorem Log_paths_fixed_root_witness:
  "ib_storageDir (NewIceBase []) = ''icebase_tables'' \<and>
   fst (getDB env0 (NewLog ''t'') Map.empty) = Inr ''storage/t/log/log.db'' \<and>
   Join [Join [''storage'', ''t'', ''log''], ''log.db''] = ''storage/t/log/log.db'' \<and>
   fst (Insert env1 engine0 (NewLog ''t'') ''t'' tx_insert fs_two_ddl) = (0, None) \<and>
   has_file ''storage/t/data/0193abcd-ef02-7abc-9def-001122334455.parquet''
     (snd (snd (snd (Insert env1 engine0 (NewLog ''t'') ''t'' tx_insert fs_two_ddl)))) \<and>
   map (snd (snd (snd (Insert env1 engine0 (NewLog ''t'') ''t'' tx_insert fs_two_ddl))))
     [''icebase_tables'', ''icebase_tables/t/log/log.db'',
      ''icebase_tables/t/data/0193abcd-ef02-7abc-9def-001122334455.parquet''] =
     [None, None, None]"
proof -
  let ?G = "getDB env0 (NewLog ''t'') Map.empty"
  let ?I = "Insert env1 engine0 (NewLog ''t'') ''t'' tx_insert fs_two_ddl"
  have g: "fst ?G = Inr ''storage/t/log/log.db''" by code_simp
  have i: "fst ?I = (0, None)" by code_simp
  have hg: "?G = (Inr ''storage/t/log/log.db'', fst (snd ?G), snd (snd ?G))"
    by (subst g [symmetric]) simp
  have hi: "?I = ((0, None), fst (snd ?I), fst (snd (snd ?I)), snd (snd (snd ?I)))"
    by (subst i [symmetric]) simp
  have pq: "Join [Join [''storage'', ''t'', ''data''],
                  UUID_String (take 16 (uuidv7 env1)) @ ''.parquet''] =
            ''storage/t/data/0193abcd-ef02-7abc-9def-001122334455.parquet''"
    by code_simp
  from Log_paths_fixed_root [of env0 "''t''" Map.empty "''storage/t/log/log.db''"
      "fst (snd ?G)" "snd (snd ?G)"] hg
  have a: "Join [Join [''storage'', ''t'', ''log''], ''log.db''] = ''storage/t/log/log.db''"
    by simp
  from Log_paths_fixed_root [of env1 "''t''" fs_two_ddl _ _ _ engine0 tx_insert "fst (snd ?I)"
      "fst (snd (snd ?I))" "snd (snd (snd ?I))"] hi
  have b: "has_file ''storage/t/data/0193abcd-ef02-7abc-9def-001122334455.parquet''
              (snd (snd (snd ?I)))"
    unfolding pq by simp
  have c: "ib_storageDir (NewIceBase []) = ''icebase_tables''" by code_simp
  have d: "map (snd (snd (snd ?I)))
     [''icebase_tables'', ''icebase_tables/t/log/log.db'',
      ''icebase_tables/t/data/0193abcd-ef02-7abc-9def-001122334455.parquet''] =
     [None, None, None]" by code_simp
  from a b c d g i show ?thesis by simp
qed

section \<open>Properties of the dispatcher\<close>

lemma process_runs:
  "runs d ps w = Some (rs, w1) \<Longrightarrow>
     process d (ps @ qs) resp w = process d qs (if ps = [] then resp else Some (last rs)) w1
     \<and> length rs = length ps"
proof (induction ps arbitrary: w rs resp)
  case Nil
  then show ?case by simp
next
  case (Cons p ps)
  from Cons.prems obtain r w' rs' where h: "handle_one d p w = (Inr r, w')"
    and rest: "runs d ps w' = Some (rs', w1)" and rs: "rs = r # rs'"
    by (auto split: prod.splits sum.splits option.splits)
  from Cons.IH [OF rest, of "Some r"]
  have ih: "process d (ps @ qs) (Some r) w' = process d qs (if ps = [] then Some r else Some (last rs')) w1"
    and len: "length rs' = length ps" by simp_all
  from len have "ps = [] \<longleftrightarrow> rs' = []" by auto
  with h ih rs len show ?case by auto
qed

text \<open>
  C7. With query splitting enabled, let the body split into the statements \<open>ps\<close>, then
  \<open>q\<close>, then \<open>rest\<close>, and let the statements \<open>ps\<close>, handled in order, all succeed.
  If \<open>q\<close> fails, \<^verbatim>\<open>handleQuery\<close> returns the error of \<open>q\<close> and no body, and the
  state is the one that \<open>q\<close> has left: no statement of \<open>rest\<close> is handled. If \<open>q\<close>
  succeeds and is the last statement, the JSON returned is the response of \<open>q\<close>.
\<close>

theorem handleQuery_batch:
  assumes split: "enableQuerySplitting (options ib)"
    and qs: "SplitNonEmptyQueries body = ps @ q # rest"
    and ps: "runs d ps w = Some (rs, w1)"
  shows "(handle_one d q w1 = (Inl e, w2) \<longrightarrow> handleQuery ib d body w = (Inl e, w2)) \<and>
         (handle_one d q w1 = (Inr r, w2) \<and> rest = [] \<longrightarrow>
            handleQuery ib d body w = (Inr (Marshal (Some r)), w2))"
proof -
  have f: "filteredQueries ib body = ps @ q # rest"
    using split qs by (simp add: filteredQueries_def)
  from process_runs [OF ps, of "q # rest" None]
  have p: "process d (ps @ q # rest) None w =
      process d (q # rest) (if ps = [] then None else Some (last rs)) w1" by simp
  show ?thesis
    unfolding handleQuery_def f p by auto
qed

theorem handleQuery_batch_witness:
  "enableQuerySplitting (options (WithQuerySplittingEnabled (NewIceBase []))) \<and>
   SplitNonEmptyQueries ''SELECT 1; SELEC; CREATE TABLE t (id BIGINT)'' =
     [''SELECT 1''] @ ''SELEC'' # [''CREATE TABLE t (id BIGINT)''] \<and>
   fst (handleQuery (WithQuerySplittingEnabled (NewIceBase [])) deps0
          ''SELECT 1; SELEC; CREATE TABLE t (id BIGINT)'' state0) =
     Inl (Wrap ''query error'' (E ''Parser Error: syntax error at or near SELEC'')) \<and>
   files (snd (handleQuery (WithQuerySplittingEnabled (NewIceBase [])) deps0
          ''SELECT 1; SELEC; CREATE TABLE t (id BIGINT)'' state0)) ''storage'' = None \<and>
   handleQuery (WithQuerySplittingEnabled (NewIceBase [])) deps0 ''SELECT 1; SELECT 1'' state0 =
     (Inr (Marshal (Some \<lparr>Meta = Some [(''1'', ''INTEGER'')], Data = Some [[''1'']], Rows = 1,
                           Elapsed = 3\<rparr>)), state0)"
proof -
  let ?ib = "WithQuerySplittingEnabled (NewIceBase [])"
  let ?r = "\<lparr>Meta = Some [(''1'', ''INTEGER'')], Data = Some [[''1'']], Rows = 1, Elapsed = 3\<rparr>"
  let ?e = "Wrap ''query error'' (E ''Parser Error: syntax error at or near SELEC'')"
  have split: "enableQuerySplitting (options ?ib)" by code_simp
  have qs: "SplitNonEmptyQueries ''SELECT 1; SELEC; CREATE TABLE t (id BIGINT)'' =
     [''SELECT 1''] @ ''SELEC'' # [''CREATE TABLE t (id BIGINT)'']" by code_simp
  have qs2: "SplitNonEmptyQueries ''SELECT 1; SELECT 1'' = [''SELECT 1''] @ ''SELECT 1'' # []"
    by code_simp
  have h1: "handle_one deps0 ''SELECT 1'' state0 = (Inr ?r, state0)"
    by (simp add: handle_one_def statement_def recover_def execute_def emit_def deps0_def
        icebase_deps_def env0_def engine0_def parse0_def answer0_def HasPrefix_def tx_Query_def
        state0_def ExecuteQuery_def Scan_def cell_def append_row_def len_opt_def show_int_def
        digit_char_def)
  have ps: "runs deps0 [''SELECT 1''] state0 = Some ([?r], state0)"
    using h1 by simp
  have h2: "handle_one deps0 ''SELEC'' state0 = (Inl ?e, state0)"
    by (simp add: handle_one_def statement_def recover_def execute_def emit_def deps0_def
        icebase_deps_def env0_def engine0_def parse0_def answer0_def HasPrefix_def tx_Query_def
        state0_def ExecuteQuery_def)
  from handleQuery_batch [OF split qs ps, of ?e state0 ?r] h2
  have a: "handleQuery ?ib deps0 ''SELECT 1; SELEC; CREATE TABLE t (id BIGINT)'' state0 = (Inl ?e, state0)"
    by simp
  from handleQuery_batch [OF split qs2 ps, of ?e state0 ?r] h1
  have b: "handleQuery ?ib deps0 ''SELECT 1; SELECT 1'' state0 = (Inr (Marshal (Some ?r)), state0)"
    by simp
  have c: "files state0 ''storage'' = None" by (simp add: state0_def)
  show ?thesis
    unfolding a b using split qs c by simp
qed

text \<open>
  C2. The view builder of log.go is \<^verbatim>\<open>RecreateAsView\<close>; its comments say that it
  recreates the table as a view over the parquet files with tombstone 0. On a table with
  two rows in \<^verbatim>\<open>schema_log\<close> and one live data file, which is on disk, it executes the
  first \<^verbatim>\<open>CREATE TABLE\<close> of the log and nothing else: no view is created and
  \<^verbatim>\<open>insert_log\<close> is not read. A \<^verbatim>\<open>SELECT\<close> on the table then runs in a transaction
  that holds an empty table, and answers no rows.
\<close>

theorem RecreateAsView_runs_first_ddl_only:
  "fst (RecreateAsView env0 engine0 (NewLog ''t'') [] fs_two_ddl) = None \<and>
   fst (snd (snd (RecreateAsView env0 engine0 (NewLog ''t'') [] fs_two_ddl))) =
     [''CREATE TABLE t (id BIGINT)''] \<and>
   orphan_rows ''t'' fs_two_ddl = [] \<and>
   map row_id (insert_rows (log_db_path ''t'') fs_two_ddl) = [uuid0] \<and>
   fst (statement deps0 ''SELECT * FROM t'' state_two_ddl) =
     Inr \<lparr>Meta = Some [(''Count'', ''BIGINT'')], Data = None, Rows = 0, Elapsed = 4\<rparr> \<and>
   trans (snd (statement deps0 ''SELECT * FROM t'' state_two_ddl)) =
     [''CREATE TABLE t (id BIGINT)'', ''SELECT * FROM t'']"
  by code_simp

text \<open>
  C4. A \<^verbatim>\<open>CREATE TABLE\<close> succeeds and produces no rows. \<^verbatim>\<open>ExecuteQuery\<close> assigns the
  nil slice \<^verbatim>\<open>data\<close> to \<^verbatim>\<open>response.Data\<close>, over the empty slice made at the start, and
  the \<^verbatim>\<open>data\<close> field of the JSON body is \<^verbatim>\<open>null\<close>, where an empty slice would have
  given \<^verbatim>\<open>[]\<close>.
\<close>

theorem zero_rows_data_is_null:
  "fst (handleQuery (NewIceBase []) deps0 ''CREATE TABLE t (id BIGINT)'' state0) =
     Inr (JObj [(''meta'', JArr [JObj [(''name'', JStr ''Count''), (''type'', JStr ''BIGINT'')]]),
                (''data'', JNull), (''rows'', JInt 0),
                (''statistics'', JObj [(''elapsed'', JSeconds 4)])]) \<and>
   ExecuteQuery 4 (QRows (Inr [''Count'']) (Inr [''BIGINT'']) []) =
     Inr \<lparr>Meta = Some [(''Count'', ''BIGINT'')], Data = None, Rows = 0, Elapsed = 4\<rparr> \<and>
   marshal_data None = JNull \<and> marshal_data (Some []) = JArr []"
  by code_simp


section \<open>Properties of the request handler\<close>

text \<open>
  C8, as the code has it. The bearer token is checked before the method. A request
  that fails the check (a token is configured and the \<^verbatim>\<open>Authorization\<close> header is not
  \<^verbatim>\<open>Bearer\<close>, a space and the token) is answered with status 401 and the text
  \<^verbatim>\<open>Unauthorized\<close>, whatever its method, and the state is left as it was. For a
  request that passes the check, \<^verbatim>\<open>OPTIONS\<close> is answered with status 200 and an empty
  body, and a method that is neither \<^verbatim>\<open>POST\<close> nor \<^verbatim>\<open>OPTIONS\<close> with status 405.
\<close>

theorem RequestHandler_methods:
  "(authToken ib \<noteq> [] \<and> Authorization r \<noteq> ''Bearer '' @ authToken ib \<longrightarrow>
      RequestHandler ib d write_error r w = (http_Error True (Text ''Unauthorized'') 401, w) \<and>
      status (fst (RequestHandler ib d write_error r w)) = 401 \<and>
      content (fst (RequestHandler ib d write_error r w)) = Text (''Unauthorized'' @ [CHR 0x0A])) \<and>
   (authToken ib = [] \<or> Authorization r = ''Bearer '' @ authToken ib \<longrightarrow>
      (Method r = ''OPTIONS'' \<longrightarrow>
         status (fst (RequestHandler ib d write_error r w)) = 200 \<and>
         content (fst (RequestHandler ib d write_error r w)) = Text []) \<and>
      (Method r \<noteq> ''POST'' \<and> Method r \<noteq> ''OPTIONS'' \<longrightarrow>
         status (fst (RequestHandler ib d write_error r w)) = 405))"
  by (auto simp: RequestHandler_def http_Error_def line_def)

theorem RequestHandler_methods_witness:
  "(authToken (NewIceBase ''secret'') \<noteq> [] \<and>
    Authorization \<lparr>Method = ''POST'', Path = ''/query'', Authorization = ''Bearer wrong'',
                   ReqBody = Inr ''SELECT 1''\<rparr> \<noteq> ''Bearer '' @ authToken (NewIceBase ''secret'')) \<and>
   RequestHandler (NewIceBase ''secret'') deps0 None
      \<lparr>Method = ''POST'', Path = ''/query'', Authorization = ''Bearer wrong'',
        ReqBody = Inr ''SELECT 1''\<rparr> state0 =
     (http_Error True (Text ''Unauthorized'') 401, state0) \<and>
   status (fst (RequestHandler (NewIceBase ''secret'') deps0 None
      \<lparr>Method = ''POST'', Path = ''/query'', Authorization = ''Bearer wrong'',
        ReqBody = Inr ''SELECT 1''\<rparr> state0)) = 401 \<and>
   (authToken (NewIceBase ''secret'') = [] \<or>
    Authorization \<lparr>Method = ''OPTIONS'', Path = ''/query'', Authorization = ''Bearer secret'',
                   ReqBody = Inr []\<rparr> = ''Bearer '' @ authToken (NewIceBase ''secret'')) \<and>
   status (fst (RequestHandler (NewIceBase ''secret'') deps0 None
      \<lparr>Method = ''OPTIONS'', Path = ''/query'', Authorization = ''Bearer secret'',
        ReqBody = Inr []\<rparr> state0)) = 200 \<and>
   content (fst (RequestHandler (NewIceBase ''secret'') deps0 None
      \<lparr>Method = ''OPTIONS'', Path = ''/query'', Authorization = ''Bearer secret'',
        ReqBody = Inr []\<rparr> state0)) = Text [] \<and>
   status (fst (RequestHandler (NewIceBase []) deps0 None
      \<lparr>Method = ''GET'', Path = ''/query'', Authorization = [], ReqBody = Inr []\<rparr> state0)) = 405"
proof -
  let ?p = "\<lparr>Method = ''POST'', Path = ''/query'', Authorization = ''Bearer wrong'',
              ReqBody = Inr ''SELECT 1''\<rparr>"
  let ?r = "\<lparr>Method = ''OPTIONS'', Path = ''/query'', Authorization = ''Bearer secret'',
              ReqBody = Inr []\<rparr>"
  let ?g = "\<lparr>Method = ''GET'', Path = ''/query'', Authorization = [], ReqBody = Inr []\<rparr>"
  have n: "authToken (NewIceBase ''secret'') \<noteq> [] \<and>
           Authorization ?p \<noteq> ''Bearer '' @ authToken (NewIceBase ''secret'')"
    by (simp add: NewIceBase_def)
  have a: "authToken (NewIceBase ''secret'') = [] \<or>
           Authorization ?r = ''Bearer '' @ authToken (NewIceBase ''secret'')"
    by (simp add: NewIceBase_def)
  have b: "authToken (NewIceBase []) = [] \<or> Authorization ?g = ''Bearer '' @ authToken (NewIceBase [])"
    by (simp add: NewIceBase_def)
  from RequestHandler_methods [of "NewIceBase ''secret''" ?p deps0 None state0,
      THEN conjunct1, THEN mp, OF n]
  have x: "RequestHandler (NewIceBase ''secret'') deps0 None ?p state0 =
             (http_Error True (Text ''Unauthorized'') 401, state0)"
    and y: "status (fst (RequestHandler (NewIceBase ''secret'') deps0 None ?p state0)) = 401"
    by blast+
  from RequestHandler_methods [of "NewIceBase ''secret''" ?r deps0 None state0,
      THEN conjunct2, THEN mp, OF a]
  have u: "status (fst (RequestHandler (NewIceBase ''secret'') deps0 None ?r state0)) = 200"
    and v: "content (fst (RequestHandler (NewIceBase ''secret'') deps0 None ?r state0)) = Text []"
    by simp_all
  from RequestHandler_methods [of "NewIceBase []" ?g deps0 None state0,
      THEN conjunct2, THEN mp, OF b]
  have z: "status (fst (RequestHandler (NewIceBase []) deps0 None ?g state0)) = 405"
    by simp
  from n x y a u v z show ?thesis by blast
qed

text \<open>
  C8, as the claim has it, fails: with a token configured, a request without the
  header is answered with status 401, whether its method is \<^verbatim>\<open>OPTIONS\<close> or \<^verbatim>\<open>GET\<close>.
\<close>

theorem options_without_token_counterexample:
  "status (fst (RequestHandler (NewIceBase ''secret'') deps0 None
      \<lparr>Method = ''OPTIONS'', Path = ''/query'', Authorization = [], ReqBody = Inr []\<rparr>
      state0)) = 401 \<and>
   content (fst (RequestHandler (NewIceBase ''secret'') deps0 None
      \<lparr>Method = ''OPTIONS'', Path = ''/query'', Authorization = [], ReqBody = Inr []\<rparr>
      state0)) = Text (''Unauthorized'' @ [CHR 0x0A]) \<and>
   status (fst (RequestHandler (NewIceBase ''secret'') deps0 None
      \<lparr>Method = ''GET'', Path = ''/query'', Authorization = [], ReqBody = Inr []\<rparr>
      state0)) = 401"
  by (simp add: RequestHandler_def NewIceBase_def http_Error_def line_def)

text \<open>
  C10. On the error text \<^verbatim>\<open>empty query\<close> \<^verbatim>\<open>ExecuteQuery\<close> returns no error but a
  response with empty meta and zero rows. So a \<^verbatim>\<open>POST\<close> to \<^verbatim>\<open>/query\<close> that passes
  the token check, whose body is one statement for which the parser names no table and
  not the operation \<^verbatim>\<open>VACUUM\<close>, and which the engine rejects with that text, is
  answered with status 200 and that response, when the transaction can be begun and
  the body can be written.
\<close>

theorem empty_query_is_answered:
  assumes post: "Method r = ''POST''"
    and auth: "authToken ib = [] \<or> Authorization r = ''Bearer '' @ authToken ib"
    and read: "ReqBody r = Inr body"
    and path: "Path r = ''/query''"
    and one: "filteredQueries ib body = [q]"
    and beg: "Begin d w = (None, w1)"
    and parse: "Parse d q = (op, [])"
    and op: "op \<noteq> OpVacuum"
    and query: "Query d q w1 = ((elapsed, QErr ''empty query''), w2)"
  shows "ExecuteQuery elapsed (QErr ''empty query'') =
           Inr \<lparr>Meta = Some [], Data = None, Rows = 0, Elapsed = elapsed\<rparr> \<and>
         status (fst (RequestHandler ib d None r w)) = 200 \<and>
         content (fst (RequestHandler ib d None r w)) =
           Doc (Marshal (Some \<lparr>Meta = Some [], Data = None, Rows = 0, Elapsed = elapsed\<rparr>))"
proof -
  have ex: "ExecuteQuery elapsed (QErr ''empty query'') =
           Inr \<lparr>Meta = Some [], Data = None, Rows = 0, Elapsed = elapsed\<rparr>"
    by (simp add: ExecuteQuery_def len_opt_def)
  have st: "statement d q w1 =
      (Inr \<lparr>Meta = Some [], Data = None, Rows = 0, Elapsed = elapsed\<rparr>, w2)"
    using parse op query ex by (simp add: statement_def recover_def execute_def emit_def)
  have h: "handle_one d q w =
      (Inr \<lparr>Meta = Some [], Data = None, Rows = 0, Elapsed = elapsed\<rparr>, Rollback d w2)"
    using beg st by (simp add: handle_one_def)
  have hq: "handleQuery ib d body w =
      (Inr (Marshal (Some \<lparr>Meta = Some [], Data = None, Rows = 0, Elapsed = elapsed\<rparr>)),
       Rollback d w2)"
    using one h by (simp add: handleQuery_def)
  have "RequestHandler ib d None r w =
      (\<lparr>status = 200, header = cors(''Content-Type'' \<mapsto> ''application/json''),
        content = Doc (Marshal (Some \<lparr>Meta = Some [], Data = None, Rows = 0,
                                       Elapsed = elapsed\<rparr>)),
        logged_status = 200\<rparr>, Rollback d w2)"
    using post auth read path hq
    by (auto simp: RequestHandler_def PostEndpoint_def)
  with ex show ?thesis by simp
qed

theorem empty_query_is_answered_witness:
  "filteredQueries (NewIceBase []) ''  '' = [[]] \<and>
   Begin deps0 state0 = (None, state0) \<and>
   Parse deps0 [] = (OpOther, []) \<and>
   Query deps0 [] state0 = ((1, QErr ''empty query''), state0) \<and>
   status (fst (RequestHandler (NewIceBase []) deps0 None
      \<lparr>Method = ''POST'', Path = ''/query'', Authorization = [], ReqBody = Inr ''  ''\<rparr>
      state0)) = 200 \<and>
   content (fst (RequestHandler (NewIceBase []) deps0 None
      \<lparr>Method = ''POST'', Path = ''/query'', Authorization = [], ReqBody = Inr ''  ''\<rparr>
      state0)) =
     Doc (JObj [(''meta'', JArr []), (''data'', JNull), (''rows'', JInt 0),
                (''statistics'', JObj [(''elapsed'', JSeconds 1)])])"
proof -
  let ?r = "\<lparr>Method = ''POST'', Path = ''/query'', Authorization = [], ReqBody = Inr ''  ''\<rparr>"
  have post: "Method ?r = ''POST''" by simp
  have auth: "authToken (NewIceBase []) = [] \<or>
      Authorization ?r = ''Bearer '' @ authToken (NewIceBase [])" by (simp add: NewIceBase_def)
  have read: "ReqBody ?r = Inr ''  ''" by simp
  have path: "Path ?r = ''/query''" by simp
  have one: "filteredQueries (NewIceBase []) ''  '' = [[]]"
    by code_simp
  have beg: "Begin deps0 state0 = (None, state0)"
    by (simp add: deps0_def icebase_deps_def env0_def state0_def)
  have parse: "Parse deps0 [] = (OpOther, [])"
    by (simp add: deps0_def icebase_deps_def parse0_def HasPrefix_def)
  have op: "OpOther \<noteq> OpVacuum" by simp
  have query: "Query deps0 [] state0 = ((1, QErr ''empty query''), state0)"
    by (simp add: deps0_def icebase_deps_def tx_Query_def engine0_def answer0_def)
  from empty_query_is_answered [OF post auth read path one beg parse op query]
  have "status (fst (RequestHandler (NewIceBase []) deps0 None ?r state0)) = 200"
    and "content (fst (RequestHandler (NewIceBase []) deps0 None ?r state0)) =
     Doc (JObj [(''meta'', JArr []), (''data'', JNull), (''rows'', JInt 0),
                (''statistics'', JObj [(''elapsed'', JSeconds 1)])])"
    by (simp_all add: Marshal_def marshal_meta_def marshal_data_def)
  with one beg parse query show ?thesis by simp
qed


section \<open>Properties of the filesystem storage backend\<close>

lemma apply_opts_if_match: "wc_etag (apply_opts [WithIfMatch e]) = e"
  by (simp add: apply_opts_def)

lemma apply_opts_none: "wc_etag (apply_opts []) = []"
  by (simp add: apply_opts_def)

lemma FS_Stat_etag_file:
  assumes "FS_Stat h enc f cfg p fs = Inr fi" and "s3_etag fi \<noteq> []"
  shows "\<exists>n. lookup (fullPath cfg p) fs = Inr n \<and> n \<noteq> Directory"
  using assms unfolding FS_Stat_def os_Stat_def guarded_def
  by (auto split: option.splits node.splits sum.splits if_splits)

lemma lookup_found:
  "lookup path fs = Inr n \<Longrightarrow>
     walk path (butlast (prefixes [] path)) fs = None \<and> node_at fs path = Some n"
  unfolding lookup_def by (auto split: option.splits)

lemma short_write_none: "\<forall>n. f (CallWrite path n) = None \<Longrightarrow> short_write f path data = None"
proof -
  assume a: "\<forall>n. f (CallWrite path n) = None"
  have "find (\<lambda>n. f (CallWrite path n) \<noteq> None) [0 ..< Suc (length data)] = None"
    unfolding find_None_iff using a by simp
  then show ?thesis by (simp add: short_write_def)
qed

lemma os_WriteFile_existing:
  assumes "lookup path fs = Inr n" and "n \<noteq> Directory"
    and "f (CallWriteFile path) = None" and "\<forall>k. f (CallWrite path k) = None"
  shows "os_WriteFile f path data fs = (None, fs(path \<mapsto> File data))"
proof -
  from lookup_found [OF assms(1)]
  have w: "walk path (butlast (prefixes [] path)) fs = None" and n: "node_at fs path = Some n"
    by simp_all
  from short_write_none [OF assms(4)] have s: "short_write f path data = None" .
  from assms(2) show ?thesis
    unfolding os_WriteFile_def assms(3) w n s by (cases n) simp_all
qed

lemma os_WriteFile_success:
  "fst (os_WriteFile f path data fs) = None \<Longrightarrow>
     snd (os_WriteFile f path data fs) path = Some (File data)"
  unfolding os_WriteFile_def
  by (auto split: option.splits node.splits prod.splits)

lemma os_WriteFile_written:
  "os_WriteFile f path data fs = (None, fs') \<Longrightarrow> fs' path = Some (File data)"
  using os_WriteFile_success [of f path data fs] by simp

lemma FS_Write_unchecked:
  assumes "wc_etag (apply_opts opts) = [] \<or>
           (\<exists>fi. FS_Stat h enc f cfg p fs = Inr fi \<and> s3_etag fi = wc_etag (apply_opts opts))"
  shows "FS_Write h enc f cfg p data opts fs = FS_Write h enc f cfg p data [] fs"
  using assms unfolding FS_Write_def Let_def apply_opts_none by auto

lemma FS_Write_success:
  "fst (FS_Write h enc f cfg p data opts fs) = None \<Longrightarrow>
     snd (FS_Write h enc f cfg p data opts fs) (fullPath cfg p) = Some (File data)"
  unfolding FS_Write_def Let_def
  using os_WriteFile_success [of f "fullPath cfg p" data] os_WriteFile_written [of f "fullPath cfg p" data]
  by (auto split: option.splits sum.splits prod.splits if_splits)

text \<open>
  C5, as the code has it. For an ETag \<open>e\<close> that is not empty, a write with
  \<^verbatim>\<open>if_match\<close> \<open>e\<close> succeeds only when \<^verbatim>\<open>Stat\<close> finds the object with ETag \<open>e\<close>, and
  the object then holds the new bytes; when \<^verbatim>\<open>Stat\<close> finds another ETag the write
  fails with the error of the mismatch, when \<^verbatim>\<open>Stat\<close> fails it fails with that error
  wrapped, and in both cases the files are unchanged; when \<^verbatim>\<open>Stat\<close> finds the ETag
  \<open>e\<close> and the operating system neither refuses to open the file nor breaks the
  writing off, the write succeeds. When \<open>e\<close> is empty or \<^verbatim>\<open>Stat\<close> finds the ETag \<open>e\<close>,
  the write is the write without the option: it succeeds when \<^verbatim>\<open>os.WriteFile\<close> does,
  and returns the error of \<^verbatim>\<open>os.WriteFile\<close> unless that is the error of a missing
  directory. The ETag of a file that \<^verbatim>\<open>Stat\<close> can read is the MD5 sum of its bytes.
\<close>

theorem FS_Write_if_match:
  "(e \<noteq> [] \<longrightarrow>
      (fst (FS_Write h enc f cfg p data [WithIfMatch e] fs) = None \<longrightarrow>
         (\<exists>fi. FS_Stat h enc f cfg p fs = Inr fi \<and> s3_etag fi = e) \<and>
         snd (FS_Write h enc f cfg p data [WithIfMatch e] fs) (fullPath cfg p) = Some (File data)) \<and>
      (\<forall>fi. FS_Stat h enc f cfg p fs = Inr fi \<and> s3_etag fi \<noteq> e \<longrightarrow>
         FS_Write h enc f cfg p data [WithIfMatch e] fs =
           (Some (E (''IfMatch: ETag mismatch (current: '' @ s3_etag fi @ '')'')), fs)) \<and>
      (\<forall>x. FS_Stat h enc f cfg p fs = Inl x \<longrightarrow>
         FS_Write h enc f cfg p data [WithIfMatch e] fs =
           (Some (Wrap (''failed to check etag, '' @ p @ '' does not exist'') x), fs)) \<and>
      (\<forall>fi. FS_Stat h enc f cfg p fs = Inr fi \<and> s3_etag fi = e \<and>
            f (CallWriteFile (fullPath cfg p)) = None \<and>
            (\<forall>n. f (CallWrite (fullPath cfg p) n) = None) \<longrightarrow>
         FS_Write h enc f cfg p data [WithIfMatch e] fs =
           (None, fs(fullPath cfg p \<mapsto> File data)))) \<and>
   (e = [] \<or> (\<exists>fi. FS_Stat h enc f cfg p fs = Inr fi \<and> s3_etag fi = e) \<longrightarrow>
      FS_Write h enc f cfg p data [WithIfMatch e] fs = FS_Write h enc f cfg p data [] fs \<and>
      (\<forall>fs'. os_WriteFile f (fullPath cfg p) data fs = (None, fs') \<longrightarrow>
         FS_Write h enc f cfg p data [WithIfMatch e] fs = (None, fs')) \<and>
      (\<forall>x fs'. os_WriteFile f (fullPath cfg p) data fs = (Some x, fs') \<and> \<not> IsNotExist x \<longrightarrow>
         FS_Write h enc f cfg p data [WithIfMatch e] fs = (Some x, fs'))) \<and>
   (\<forall>c. lookup (fullPath cfg p) fs = Inr (File c) \<and> f (CallStat (fullPath cfg p)) = None \<and>
        f (CallReadFile (fullPath cfg p)) = None \<longrightarrow>
      (\<exists>fi. FS_Stat h enc f cfg p fs = Inr fi \<and> s3_etag fi = h c))"
proof (intro conjI impI allI)
  assume e: "e \<noteq> []" and ok: "fst (FS_Write h enc f cfg p data [WithIfMatch e] fs) = None"
  from ok e show "\<exists>fi. FS_Stat h enc f cfg p fs = Inr fi \<and> s3_etag fi = e"
    unfolding FS_Write_def Let_def apply_opts_if_match
    by (cases "FS_Stat h enc f cfg p fs") (auto split: if_splits)
next
  assume "fst (FS_Write h enc f cfg p data [WithIfMatch e] fs) = None"
  then show "snd (FS_Write h enc f cfg p data [WithIfMatch e] fs) (fullPath cfg p) = Some (File data)"
    by (rule FS_Write_success)
next
  fix fi
  assume "e \<noteq> []" and "FS_Stat h enc f cfg p fs = Inr fi \<and> s3_etag fi \<noteq> e"
  then show "FS_Write h enc f cfg p data [WithIfMatch e] fs =
           (Some (E (''IfMatch: ETag mismatch (current: '' @ s3_etag fi @ '')'')), fs)"
    unfolding FS_Write_def Let_def apply_opts_if_match by simp
next
  fix x
  assume "e \<noteq> []" and "FS_Stat h enc f cfg p fs = Inl x"
  then show "FS_Write h enc f cfg p data [WithIfMatch e] fs =
           (Some (Wrap (''failed to check etag, '' @ p @ '' does not exist'') x), fs)"
    unfolding FS_Write_def Let_def apply_opts_if_match by simp
next
  fix fi
  assume e: "e \<noteq> []"
    and a: "FS_Stat h enc f cfg p fs = Inr fi \<and> s3_etag fi = e \<and>
            f (CallWriteFile (fullPath cfg p)) = None \<and>
            (\<forall>n. f (CallWrite (fullPath cfg p) n) = None)"
  from a e FS_Stat_etag_file [of h enc f cfg p fs fi] obtain n where
    n: "lookup (fullPath cfg p) fs = Inr n" "n \<noteq> Directory" by auto
  from a have w: "os_WriteFile f (fullPath cfg p) data fs = (None, fs(fullPath cfg p \<mapsto> File data))"
    by (intro os_WriteFile_existing [OF n]) simp_all
  from a e show "FS_Write h enc f cfg p data [WithIfMatch e] fs =
           (None, fs(fullPath cfg p \<mapsto> File data))"
    unfolding FS_Write_def Let_def apply_opts_if_match w by simp
next
  assume a: "e = [] \<or> (\<exists>fi. FS_Stat h enc f cfg p fs = Inr fi \<and> s3_etag fi = e)"
  then show "FS_Write h enc f cfg p data [WithIfMatch e] fs = FS_Write h enc f cfg p data [] fs"
    by (intro FS_Write_unchecked) (simp add: apply_opts_if_match)
next
  fix fs'
  assume a: "e = [] \<or> (\<exists>fi. FS_Stat h enc f cfg p fs = Inr fi \<and> s3_etag fi = e)"
    and w: "os_WriteFile f (fullPath cfg p) data fs = (None, fs')"
  from a show "FS_Write h enc f cfg p data [WithIfMatch e] fs = (None, fs')"
    unfolding FS_Write_def Let_def apply_opts_if_match w by auto
next
  fix x fs'
  assume a: "e = [] \<or> (\<exists>fi. FS_Stat h enc f cfg p fs = Inr fi \<and> s3_etag fi = e)"
    and w: "os_WriteFile f (fullPath cfg p) data fs = (Some x, fs') \<and> \<not> IsNotExist x"
  from w have w1: "os_WriteFile f (fullPath cfg p) data fs = (Some x, fs')" and x: "\<not> IsNotExist x"
    by simp_all
  from a x show "FS_Write h enc f cfg p data [WithIfMatch e] fs = (Some x, fs')"
    unfolding FS_Write_def Let_def apply_opts_if_match w1 by auto
next
  fix c
  assume "lookup (fullPath cfg p) fs = Inr (File c) \<and> f (CallStat (fullPath cfg p)) = None \<and>
        f (CallReadFile (fullPath cfg p)) = None"
  then show "\<exists>fi. FS_Stat h enc f cfg p fs = Inr fi \<and> s3_etag fi = h c"
    by (simp add: FS_Stat_def os_Stat_def os_ReadFile_def guarded_def)
qed

theorem FS_Write_if_match_witness:
  "''0102'' \<noteq> [] \<and>
   FS_Stat etag0 enc0 no_faults \<lparr>rootDir = ''root''\<rparr> ''a'' fs_root_a =
     Inr \<lparr>s3_name = ''a'', s3_size = 2, s3_etag = ''0102'', s3_isDir = False\<rparr> \<and>
   lookup ''root/a'' fs_root_a = Inr (File [1, 2]) \<and> etag0 [1, 2] = ''0102'' \<and>
   FS_Write etag0 enc0 no_faults \<lparr>rootDir = ''root''\<rparr> ''a'' [3] [WithIfMatch ''0102''] fs_root_a =
     (None, fs_root_a(''root/a'' \<mapsto> File [3])) \<and>
   FS_Write etag0 enc0 no_faults \<lparr>rootDir = ''root''\<rparr> ''a'' [3] [WithIfMatch ''stale''] fs_root_a =
     (Some (E ''IfMatch: ETag mismatch (current: 0102)''), fs_root_a) \<and>
   FS_Stat etag0 enc0 no_faults \<lparr>rootDir = ''root''\<rparr> ''a'' Map.empty = Inl (ErrNotExist ''root/a'') \<and>
   FS_Write etag0 enc0 no_faults \<lparr>rootDir = ''root''\<rparr> ''a'' [3] [WithIfMatch ''0102''] Map.empty =
     (Some (Wrap ''failed to check etag, a does not exist'' (ErrNotExist ''root/a'')), Map.empty) \<and>
   os_WriteFile read_only_a ''root/a'' [3] fs_root_a =
     (Some (E ''open root/a: permission denied''), fs_root_a) \<and>
   FS_Write etag0 enc0 read_only_a \<lparr>rootDir = ''root''\<rparr> ''a'' [3] [WithIfMatch ''0102''] fs_root_a =
     (Some (E ''open root/a: permission denied''), fs_root_a) \<and>
   os_WriteFile no_faults ''root/a'' [3] fs_root_a = (None, fs_root_a(''root/a'' \<mapsto> File [3])) \<and>
   FS_Write etag0 enc0 no_faults \<lparr>rootDir = ''root''\<rparr> ''a'' [3] [WithIfMatch []] fs_root_a =
     (None, fs_root_a(''root/a'' \<mapsto> File [3]))"
proof -
  let ?cfg = "\<lparr>rootDir = ''root''\<rparr>"
  let ?fi = "\<lparr>s3_name = ''a'', s3_size = 2, s3_etag = ''0102'', s3_isDir = False\<rparr>"
  have full: "fullPath ?cfg ''a'' = ''root/a''" by code_simp
  have e: "''0102'' \<noteq> []" by simp
  have e2: "''stale'' \<noteq> []" by simp
  have st: "FS_Stat etag0 enc0 no_faults ?cfg ''a'' fs_root_a = Inr ?fi" by code_simp
  have st2: "FS_Stat etag0 enc0 read_only_a ?cfg ''a'' fs_root_a = Inr ?fi" by code_simp
  have st3: "FS_Stat etag0 enc0 no_faults ?cfg ''a'' Map.empty = Inl (ErrNotExist ''root/a'')"
    by code_simp
  have lk: "lookup ''root/a'' fs_root_a = Inr (File [1, 2])" by code_simp
  have h: "etag0 [1, 2] = ''0102''" by code_simp
  have nf: "no_faults (CallWriteFile ''root/a'') = None \<and> (\<forall>n. no_faults (CallWrite ''root/a'' n) = None)"
    by (simp add: no_faults_def)
  have w1: "os_WriteFile read_only_a ''root/a'' [3] fs_root_a =
     (Some (E ''open root/a: permission denied''), fs_root_a)"
    by (simp add: os_WriteFile_def read_only_a_def)
  have nx: "\<not> IsNotExist (E ''open root/a: permission denied'')" by (simp add: IsNotExist_def)
  have w2: "os_WriteFile no_faults ''root/a'' [3] fs_root_a = (None, fs_root_a(''root/a'' \<mapsto> File [3]))"
    using os_WriteFile_existing [of "''root/a''" fs_root_a "File [1, 2]" no_faults "[3]"] lk nf
    by simp
  note T = FS_Write_if_match [of _ etag0 enc0 _ ?cfg "''a''" "[3]", unfolded full]
  from T [of "''0102''" no_faults fs_root_a] e st nf
  have a: "FS_Write etag0 enc0 no_faults ?cfg ''a'' [3] [WithIfMatch ''0102''] fs_root_a =
     (None, fs_root_a(''root/a'' \<mapsto> File [3]))"
    by simp
  from T [of "''stale''" no_faults fs_root_a] e2 st
  have b: "FS_Write etag0 enc0 no_faults ?cfg ''a'' [3] [WithIfMatch ''stale''] fs_root_a =
     (Some (E ''IfMatch: ETag mismatch (current: 0102)''), fs_root_a)"
    by simp
  from T [of "''0102''" no_faults Map.empty] e st3
  have c: "FS_Write etag0 enc0 no_faults ?cfg ''a'' [3] [WithIfMatch ''0102''] Map.empty =
     (Some (Wrap ''failed to check etag, a does not exist'' (ErrNotExist ''root/a'')), Map.empty)"
    by simp
  have m: "''0102'' = [] \<or>
      (\<exists>fi. FS_Stat etag0 enc0 read_only_a ?cfg ''a'' fs_root_a = Inr fi \<and> s3_etag fi = ''0102'')"
    using st2 by simp
  from T [of "''0102''" read_only_a fs_root_a, THEN conjunct2, THEN conjunct1, THEN mp, OF m,
      THEN conjunct2, THEN conjunct2, THEN spec, THEN spec, THEN mp, OF conjI [OF w1 nx]]
  have d: "FS_Write etag0 enc0 read_only_a ?cfg ''a'' [3] [WithIfMatch ''0102''] fs_root_a =
     (Some (E ''open root/a: permission denied''), fs_root_a)"
    .
  have m0: "[] = [] \<or>
      (\<exists>fi. FS_Stat etag0 enc0 no_faults ?cfg ''a'' fs_root_a = Inr fi \<and> s3_etag fi = [])"
    by simp
  from T [of "[]" no_faults fs_root_a, THEN conjunct2, THEN conjunct1, THEN mp, OF m0,
      THEN conjunct2, THEN conjunct1, THEN spec, THEN mp, OF w2]
  have g: "FS_Write etag0 enc0 no_faults ?cfg ''a'' [3] [WithIfMatch []] fs_root_a =
     (None, fs_root_a(''root/a'' \<mapsto> File [3]))"
    .
  from e st lk h a b st3 c w1 d w2 g show ?thesis by blast
qed

text \<open>
  C5, as the claim has it, fails in both directions. The check is guarded by
  \<^verbatim>\<open>cfg.etag != ""\<close>, so a write with \<^verbatim>\<open>if_match\<close> empty succeeds on a path where
  nothing is stored, and replaces a file whose ETag is not empty. And a write whose
  \<^verbatim>\<open>if_match\<close> is the ETag of the stored object fails when the operating system
  refuses the write: on a file that cannot be opened the content stays, on a disk that
  is full after one byte the object is left with that byte.
\<close>

theorem if_match_counterexample:
  "FS_Stat etag0 enc0 no_faults \<lparr>rootDir = ''root''\<rparr> ''a'' Map.empty = Inl (ErrNotExist ''root/a'') \<and>
   fst (FS_Write etag0 enc0 no_faults \<lparr>rootDir = ''root''\<rparr> ''a'' [3] [WithIfMatch []] Map.empty)
     = None \<and>
   snd (FS_Write etag0 enc0 no_faults \<lparr>rootDir = ''root''\<rparr> ''a'' [3] [WithIfMatch []] Map.empty)
     ''root/a'' = Some (File [3]) \<and>
   fst (FS_Write etag0 enc0 no_faults \<lparr>rootDir = ''root''\<rparr> ''a'' [3] [WithIfMatch []] fs_root_a)
     = None \<and>
   snd (FS_Write etag0 enc0 no_faults \<lparr>rootDir = ''root''\<rparr> ''a'' [3] [WithIfMatch []] fs_root_a)
     ''root/a'' = Some (File [3]) \<and>
   FS_Stat etag0 enc0 read_only_a \<lparr>rootDir = ''root''\<rparr> ''a'' fs_root_a =
     Inr \<lparr>s3_name = ''a'', s3_size = 2, s3_etag = ''0102'', s3_isDir = False\<rparr> \<and>
   fst (FS_Write etag0 enc0 read_only_a \<lparr>rootDir = ''root''\<rparr> ''a'' [3] [WithIfMatch ''0102'']
          fs_root_a) = Some (E ''open root/a: permission denied'') \<and>
   snd (FS_Write etag0 enc0 read_only_a \<lparr>rootDir = ''root''\<rparr> ''a'' [3] [WithIfMatch ''0102'']
          fs_root_a) ''root/a'' = Some (File [1, 2]) \<and>
   FS_Stat etag0 enc0 full_disk_a \<lparr>rootDir = ''root''\<rparr> ''a'' fs_root_a =
     Inr \<lparr>s3_name = ''a'', s3_size = 2, s3_etag = ''0102'', s3_isDir = False\<rparr> \<and>
   fst (FS_Write etag0 enc0 full_disk_a \<lparr>rootDir = ''root''\<rparr> ''a'' [3, 4] [WithIfMatch ''0102'']
          fs_root_a) = Some (E ''write root/a: no space left on device'') \<and>
   snd (FS_Write etag0 enc0 full_disk_a \<lparr>rootDir = ''root''\<rparr> ''a'' [3, 4] [WithIfMatch ''0102'']
          fs_root_a) ''root/a'' = Some (File [3])"
  by code_simp

end
